theory Spec2Isabelle
  imports Complex_Main "HOL-Library.Multiset" "HOL-Library.List_Lexorder" "HOL-Library.Char_ord"
begin

section \<open>Data model (src/lib/supabase.ts)\<close>

text \<open>
  The rows are the TypeScript types of \<^verbatim>\<open>src/lib/supabase.ts\<close>. Field names carry a
  prefix per table, since several tables share names such as \<^verbatim>\<open>id\<close>, \<^verbatim>\<open>amount\<close> and
  \<^verbatim>\<open>status\<close>. A column of type \<^verbatim>\<open>T | null\<close> is a \<open>T option\<close>. The unions of statuses and
  of transaction types are datatypes; the other text columns are strings, which the code
  compares, prints and rewrites.

  Amounts are the database's \<^verbatim>\<open>numeric(10,2)\<close> columns, which reach the code as JavaScript
  numbers. A number is modelled by the rational it stands for.
\<close>

type_synonym number = rat

datatype txn_type = Income | Expense

record Transaction =
  t_id :: string
  t_type :: txn_type
  t_category :: string
  t_amount :: number
  t_description :: "string option"
  t_transaction_date :: string
  t_property_id :: "string option"
  t_maintenance_request_id :: "string option"
  t_payment_method :: "string option"
  t_reference_number :: "string option"
  t_created_by :: "string option"
  t_created_at :: string
  t_updated_at :: string

datatype payment_status = Pending | Paid | Overdue | Cancelled

record Payment =
  p_id :: string
  p_property_id :: string
  p_amount :: number
  p_payment_type :: string
  p_payment_date :: "string option"
  p_due_date :: string
  p_status :: payment_status
  p_payment_method :: "string option"
  p_transaction_id :: "string option"
  p_notes :: "string option"
  p_created_at :: string
  p_updated_at :: string

datatype maintenance_status = MPending | MInProgress | MCompleted | MCancelled

record MaintenanceRequest =
  m_id :: string
  m_title :: string
  m_description :: "string option"
  m_category :: string
  m_status :: maintenance_status
  m_priority :: string
  m_assigned_vendor :: "string option"
  m_requested_by :: "string option"
  m_property_id :: "string option"
  m_estimated_cost :: "number option"
  m_actual_cost :: "number option"
  m_scheduled_date :: "string option"
  m_completed_date :: "string option"
  m_is_recurring :: bool
  m_recurrence_interval :: "string option"
  m_created_at :: string
  m_updated_at :: string

text \<open>
  \<^verbatim>\<open>xs.reduce((sum, x) => sum + x.amount, 0)\<close>: a left fold from 0, in list order. The
  totals of the dashboard, of the payments page and of the financial statements are
  modelled with exact addition.
\<close>

definition reduce_sum :: "('a \<Rightarrow> number) \<Rightarrow> 'a list \<Rightarrow> number" where
  "reduce_sum f xs = foldl (\<lambda>sum x. sum + f x) 0 xs"

section \<open>The platform's clock and calendar\<close>

text \<open>
  The report code reads the browser's clock and calendar through \<^verbatim>\<open>Date\<close>. Those
  readings are inputs of the model, one function per expression of the source:
  \<^item> \<open>since_days_ago n d\<close> is \<^verbatim>\<open>new Date(d) >= daysAgo\<close>, where \<^verbatim>\<open>daysAgo\<close> is the
    current instant moved back \<open>n\<close> days by \<^verbatim>\<open>setDate(getDate() - n)\<close>;
  \<^item> \<open>since_year_start d\<close> is \<^verbatim>\<open>new Date(d) >= new Date(new Date().getFullYear(), 0, 1)\<close>;
  \<^item> \<open>full_year d\<close> and \<open>month_index d\<close> are \<^verbatim>\<open>new Date(d).getFullYear()\<close> and
    \<^verbatim>\<open>new Date(d).getMonth()\<close>, the year and the month (from 0) of that instant in the
    browser's time zone;
  \<^item> \<open>month_label s\<close> is
    \<^verbatim>\<open>new Date(s).toLocaleDateString('en-US', { month: 'short', year: 'numeric' })\<close>.
\<close>

record date_env =
  since_days_ago :: "nat \<Rightarrow> string \<Rightarrow> bool"
  since_year_start :: "string \<Rightarrow> bool"
  full_year :: "string \<Rightarrow> int"
  month_index :: "string \<Rightarrow> nat"
  month_label :: "string \<Rightarrow> string"

section \<open>Financial statements (FinancialStatements component)\<close>

record Assets =
  cash :: number
  accountsReceivable :: number
  assets_total :: number

record Liabilities =
  accountsPayable :: number
  liabilities_total :: number

record Equity =
  retainedEarnings :: number
  equity_total :: number

record BalanceSheetData =
  assets :: Assets
  liabilities :: Liabilities
  equity :: Equity

datatype period = Current | Ytd

definition filterByPeriod :: "date_env \<Rightarrow> period \<Rightarrow> Transaction list \<Rightarrow> Transaction list" where
  "filterByPeriod env period transactions =
     (case period of
        Current \<Rightarrow> filter (\<lambda>t. since_days_ago env 30 (t_transaction_date t)) transactions
      | Ytd \<Rightarrow> filter (\<lambda>t. since_year_start env (t_transaction_date t)) transactions)"

definition calculateBalanceSheet ::
  "date_env \<Rightarrow> period \<Rightarrow> Transaction list \<Rightarrow> Payment list \<Rightarrow> BalanceSheetData" where
  "calculateBalanceSheet env period transactions payments =
     (let filteredTransactions = filterByPeriod env period transactions;
          totalIncome = reduce_sum t_amount (filter (\<lambda>t. t_type t = Income) filteredTransactions);
          totalExpenses = reduce_sum t_amount (filter (\<lambda>t. t_type t = Expense) filteredTransactions);
          pendingPayments = reduce_sum p_amount
            (filter (\<lambda>p. p_status p = Pending \<or> p_status p = Overdue) payments);
          cash' = totalIncome - totalExpenses;
          accountsReceivable' = pendingPayments;
          assets' = cash' + accountsReceivable';
          accountsPayable' = 0;
          liabilities' = accountsPayable';
          retainedEarnings' = assets' - liabilities'
      in \<lparr>assets = \<lparr>cash = cash', accountsReceivable = accountsReceivable', assets_total = assets'\<rparr>,
          liabilities = \<lparr>accountsPayable = accountsPayable', liabilities_total = liabilities'\<rparr>,
          equity = \<lparr>retainedEarnings = retainedEarnings', equity_total = retainedEarnings'\<rparr>\<rparr>)"

section \<open>JavaScript numbers in the reports\<close>

text \<open>
  A JavaScript number is an IEEE 754 double. Its finite values are rationals, and \<^verbatim>\<open>+\<close>
  and \<^verbatim>\<open>-\<close> compute the exact result and round it to 53 significant bits, ties to
  even. \<open>round_double\<close> is that rounding. It rounds at every magnitude, so it leaves out
  the overflow to \<^verbatim>\<open>Infinity\<close> (from \<open>2^1024\<close>) and the coarser grid of the subnormal numbers
  (below \<open>2^-1022\<close>); the amounts of a \<^verbatim>\<open>numeric(10,2)\<close> column and their sums are far from
  both. The rollups of the reports page are modelled with this addition.
\<close>

fun bit_length :: "nat \<Rightarrow> nat" where
  "bit_length n = (if n = 0 then 0 else Suc (bit_length (n div 2)))"

declare bit_length.simps [simp del]

definition pow2 :: "int \<Rightarrow> rat" where
  "pow2 e = (if 0 \<le> e then 2 ^ nat e else 1 / 2 ^ nat (- e))"

text \<open>For \<open>q > 0\<close>, the exponent \<open>e\<close> with \<open>2^e \<le> q < 2^(e+1)\<close>.\<close>

definition exponent_of :: "rat \<Rightarrow> int" where
  "exponent_of q =
     (if 1 \<le> q then int (bit_length (nat \<lfloor>q\<rfloor>)) - 1
      else (let j = int (bit_length (nat \<lfloor>1 / q\<rfloor>)) - 1
            in if q * pow2 j = 1 then - j else - j - 1))"

definition round_half_even :: "rat \<Rightarrow> int" where
  "round_half_even x =
     (let n = \<lfloor>x\<rfloor>; r = x - of_int n
      in if r < 1 / 2 then n else if 1 / 2 < r then n + 1 else if even n then n else n + 1)"

definition round_double :: "rat \<Rightarrow> rat" where
  "round_double q =
     (if q = 0 then 0
      else (let ulp = pow2 (exponent_of \<bar>q\<bar> - 52)
            in sgn q * of_int (round_half_even (\<bar>q\<bar> / ulp)) * ulp))"

definition fl_add :: "number \<Rightarrow> number \<Rightarrow> number" where
  "fl_add x y = round_double (x + y)"

definition fl_sub :: "number \<Rightarrow> number \<Rightarrow> number" where
  "fl_sub x y = round_double (x - y)"

text \<open>\<^verbatim>\<open>xs.reduce((sum, x) => sum + x.amount, 0)\<close> in doubles.\<close>

definition fl_sum :: "('a \<Rightarrow> number) \<Rightarrow> 'a list \<Rightarrow> number" where
  "fl_sum f xs = foldl (\<lambda>sum x. fl_add sum (f x)) 0 xs"

text \<open>The double a decimal amount of the database arrives as.\<close>

definition double_of :: "rat \<Rightarrow> number" where
  "double_of q = round_double q"

section \<open>Dashboard and the payments page: pending totals\<close>

record DashboardStats =
  totalIncome :: number
  totalExpenses :: number
  balance :: number
  pendingPayments :: number
  upcomingMaintenance :: nat
  activeMaintenance :: nat

text \<open>
  \<open>status_text\<close> is the text the \<^verbatim>\<open>status\<close> column of \<^verbatim>\<open>payments\<close> holds.
  \<open>select_eq column v rows\<close> is what the database returns for
  \<^verbatim>\<open>.select('*').eq(column, v)\<close> among the rows the caller may see.
\<close>

fun status_text :: "payment_status \<Rightarrow> string" where
  "status_text Pending = ''pending''"
| "status_text Paid = ''paid''"
| "status_text Overdue = ''overdue''"
| "status_text Cancelled = ''cancelled''"

definition select_eq :: "('r \<Rightarrow> string) \<Rightarrow> string \<Rightarrow> 'r list \<Rightarrow> 'r list" where
  "select_eq column v rows = filter (\<lambda>r. column r = v) rows"

text \<open>
  \<open>or_empty\<close> is \<^verbatim>\<open>(data || [])\<close>: a query that failed leaves \<^verbatim>\<open>data\<close> null.
\<close>

definition or_empty :: "'a list option \<Rightarrow> 'a list" where
  "or_empty d = (case d of None \<Rightarrow> [] | Some xs \<Rightarrow> xs)"

text \<open>
  The statistics \<^verbatim>\<open>loadDashboardData\<close> computes from the answers to its three queries:
  all transactions, the payments with \<^verbatim>\<open>.eq('status', 'pending')\<close>, and the five most
  recent maintenance requests.
\<close>

definition loadDashboardData ::
  "Transaction list option \<Rightarrow> Payment list option \<Rightarrow> MaintenanceRequest list option
     \<Rightarrow> DashboardStats" where
  "loadDashboardData transactions payments maintenance =
     (let totalIncome' = reduce_sum t_amount (filter (\<lambda>t. t_type t = Income) (or_empty transactions));
          totalExpenses' = reduce_sum t_amount (filter (\<lambda>t. t_type t = Expense) (or_empty transactions));
          activeMaintenance' = length (filter (\<lambda>m. m_status m = MInProgress) (or_empty maintenance));
          upcomingMaintenance' = length (filter (\<lambda>m. m_status m = MPending) (or_empty maintenance))
      in \<lparr>totalIncome = totalIncome',
          totalExpenses = totalExpenses',
          balance = totalIncome' - totalExpenses',
          pendingPayments = reduce_sum p_amount (or_empty payments),
          upcomingMaintenance = upcomingMaintenance',
          activeMaintenance = activeMaintenance'\<rparr>)"

text \<open>\<^verbatim>\<open>totalPending\<close> of the payments page, over the loaded payments.\<close>

definition totalPending :: "'a Payment_scheme list \<Rightarrow> number" where
  "totalPending payments =
     reduce_sum p_amount (filter (\<lambda>p. p_status p = Pending \<or> p_status p = Overdue) payments)"

section \<open>Queries, errors and effects\<close>

text \<open>
  The components talk to the database through the query builder of the client library:
  \<^verbatim>\<open>supabase.from(table)\<close>, then one of \<^verbatim>\<open>select\<close>, \<^verbatim>\<open>insert\<close>, \<^verbatim>\<open>update\<close>, \<^verbatim>\<open>delete\<close>, then
  filters and an ordering. A built query is a record of what was chained. The value of
  \<^verbatim>\<open>.eq(column, value)\<close> is optional because the code passes \<^verbatim>\<open>user?.id\<close>, which is
  \<^verbatim>\<open>undefined\<close> when nobody is signed in.
\<close>

record User =
  user_id :: string

record MaintenancePayload =
  mp_title :: string
  mp_description :: string
  mp_category :: string
  mp_priority :: string
  mp_status :: maintenance_status
  mp_estimated_cost :: "number option"
  mp_scheduled_date :: "string option"
  mp_assigned_vendor :: "string option"
  mp_requested_by :: "string option"

text \<open>
  \<^verbatim>\<open>updateData\<close> of the payments page starts as \<^verbatim>\<open>{ status }\<close>; the other two fields are
  present only when the code assigns them.
\<close>

record PaymentUpdate =
  u_status :: string
  u_payment_date :: "string option"
  u_payment_method :: "string option"

record TransactionInsert =
  ti_type :: txn_type
  ti_category :: string
  ti_amount :: number
  ti_description :: string
  ti_transaction_date :: string
  ti_property_id :: string
  ti_payment_method :: "string option"
  ti_created_by :: "string option"

datatype payload =
    MaintenanceRow MaintenancePayload
  | PaymentRow PaymentUpdate
  | TransactionRow TransactionInsert

datatype verb = Select string | Insert payload | Update payload | Delete

datatype filter = Eq string "string option" | In string "string list"

record query =
  q_from :: string
  q_verb :: verb
  q_filters :: "filter list"
  q_order :: "(string \<times> bool) option"

definition sb_select :: "string \<Rightarrow> string \<Rightarrow> query" where
  "sb_select table columns = \<lparr>q_from = table, q_verb = Select columns, q_filters = [], q_order = None\<rparr>"

definition sb_insert :: "string \<Rightarrow> payload \<Rightarrow> query" where
  "sb_insert table row = \<lparr>q_from = table, q_verb = Insert row, q_filters = [], q_order = None\<rparr>"

definition sb_update :: "string \<Rightarrow> payload \<Rightarrow> query" where
  "sb_update table row = \<lparr>q_from = table, q_verb = Update row, q_filters = [], q_order = None\<rparr>"

definition sb_delete :: "string \<Rightarrow> query" where
  "sb_delete table = \<lparr>q_from = table, q_verb = Delete, q_filters = [], q_order = None\<rparr>"

definition sb_eq :: "string \<Rightarrow> string option \<Rightarrow> query \<Rightarrow> query" where
  "sb_eq column v q = q\<lparr>q_filters := q_filters q @ [Eq column v]\<rparr>"

definition sb_in :: "string \<Rightarrow> string list \<Rightarrow> query \<Rightarrow> query" where
  "sb_in column vs q = q\<lparr>q_filters := q_filters q @ [In column vs]\<rparr>"

text \<open>\<^verbatim>\<open>.order(column, { ascending })\<close>.\<close>

definition sb_order :: "string \<Rightarrow> bool \<Rightarrow> query \<Rightarrow> query" where
  "sb_order column ascending q = q\<lparr>q_order := Some (column, ascending)\<rparr>"

text \<open>
  What a handler can throw: the \<^verbatim>\<open>error\<close> of a database answer, or a \<^verbatim>\<open>new Error(message)\<close>
  of its own.
\<close>

datatype error = DbError string | Error string

text \<open>
  A handler's run is the list of what it does, in order: the queries it issues, its
  state updates, its callbacks and what it logs.
\<close>

datatype effect =
    Issue query
  | ConsoleError string error
  | SetLoading bool
  | SetRequests "MaintenanceRequest list"
  | SetDeleteConfirmId "string option"
  | OnSuccess
  | OnClose
  | LoadData

fun issued :: "effect list \<Rightarrow> query list" where
  "issued [] = []"
| "issued (Issue q # es) = q # issued es"
| "issued (e # es) = issued es"

text \<open>\<open>user?.id\<close>.\<close>

definition user_id_opt :: "User option \<Rightarrow> string option" where
  "user_id_opt user = map_option user_id user"

text \<open>JavaScript's truthiness of a string, and of a string that may be missing.\<close>

definition truthy :: "string \<Rightarrow> bool" where
  "truthy s = (s \<noteq> [])"

definition truthy_opt :: "string option \<Rightarrow> bool" where
  "truthy_opt s = (case s of None \<Rightarrow> False | Some v \<Rightarrow> truthy v)"

text \<open>\<^verbatim>\<open>s || null\<close>.\<close>

definition or_null :: "string \<Rightarrow> string option" where
  "or_null s = (if truthy s then Some s else None)"

section \<open>Maintenance requests (MaintenanceList component)\<close>

definition loadRequests_query :: "bool \<Rightarrow> User \<Rightarrow> query" where
  "loadRequests_query isAdmin user =
     (let query = sb_order ''created_at'' False (sb_select ''maintenance_requests'' ''*'')
      in if \<not> isAdmin then sb_eq ''requested_by'' (Some (user_id user)) query else query)"

text \<open>
  \<^verbatim>\<open>loadRequests\<close> issues nothing when nobody is signed in. \<open>answer\<close> is the database's
  answer to the query: its \<^verbatim>\<open>error\<close>, or its \<^verbatim>\<open>data\<close> (which may be null).
\<close>

definition loadRequests ::
  "bool \<Rightarrow> User option \<Rightarrow> error + MaintenanceRequest list option \<Rightarrow> effect list" where
  "loadRequests isAdmin user answer =
     (case user of
        None \<Rightarrow> [SetRequests [], SetLoading False]
      | Some u \<Rightarrow>
          Issue (loadRequests_query isAdmin u) #
          (case answer of
             Inl e \<Rightarrow> [ConsoleError ''Error loading maintenance requests:'' e]
           | Inr data \<Rightarrow> [SetRequests (or_empty data)]) @
          [SetLoading False])"

definition handleDelete_query :: "bool \<Rightarrow> User option \<Rightarrow> string \<Rightarrow> query" where
  "handleDelete_query isAdmin user rid =
     (let query = sb_eq ''id'' (Some rid) (sb_delete ''maintenance_requests'')
      in if \<not> isAdmin
         then sb_eq ''status'' (Some ''pending'') (sb_eq ''requested_by'' (user_id_opt user) query)
         else query)"

text \<open>
  \<open>db_error\<close> is the \<^verbatim>\<open>error\<close> field of the database's answer to the query.
\<close>

definition handleDelete ::
  "bool \<Rightarrow> User option \<Rightarrow> MaintenanceRequest list \<Rightarrow> error option \<Rightarrow> string \<Rightarrow> effect list" where
  "handleDelete isAdmin user requests db_error rid =
     Issue (handleDelete_query isAdmin user rid) #
     (case db_error of
        Some e \<Rightarrow> [ConsoleError ''Error deleting maintenance request:'' e]
      | None \<Rightarrow> [SetRequests (filter (\<lambda>req. m_id req \<noteq> rid) requests), SetDeleteConfirmId None])"

text \<open>
  The condition under which a request's card shows its edit and delete buttons:
  \<^verbatim>\<open>isAdmin || (user && request.requested_by === user.id && request.status === 'pending')\<close>.
\<close>

definition shows_actions :: "bool \<Rightarrow> User option \<Rightarrow> MaintenanceRequest \<Rightarrow> bool" where
  "shows_actions isAdmin user request =
     (isAdmin \<or>
      (case user of
         None \<Rightarrow> False
       | Some u \<Rightarrow> m_requested_by request = Some (user_id u) \<and> m_status request = MPending))"

text \<open>The form's state, as \<^verbatim>\<open>useState\<close> holds it: the inputs' strings.\<close>

record FormData =
  f_title :: string
  f_description :: string
  f_category :: string
  f_priority :: string
  f_status :: maintenance_status
  f_estimated_cost :: string
  f_scheduled_date :: string
  f_assigned_vendor :: string

text \<open>
  The payload of \<^verbatim>\<open>handleSubmit\<close>. \<open>parseFloat\<close> is the platform's function. The requester
  is \<^verbatim>\<open>editingRequest?.requested_by ?? user?.id\<close>: the request's requester unless there is
  no request or its requester is null, and then the signed-in user's id.
\<close>

definition submit_payload ::
  "(string \<Rightarrow> number) \<Rightarrow> bool \<Rightarrow> User option \<Rightarrow> MaintenanceRequest option \<Rightarrow> FormData
     \<Rightarrow> MaintenancePayload" where
  "submit_payload parseFloat isAdmin user editingRequest formData =
     \<lparr>mp_title = f_title formData,
      mp_description = f_description formData,
      mp_category = f_category formData,
      mp_priority = f_priority formData,
      mp_status = (if isAdmin then f_status formData else MPending),
      mp_estimated_cost =
        (if isAdmin
         then (if truthy (f_estimated_cost formData)
               then Some (parseFloat (f_estimated_cost formData)) else None)
         else None),
      mp_scheduled_date = (if isAdmin then or_null (f_scheduled_date formData) else None),
      mp_assigned_vendor = (if isAdmin then or_null (f_assigned_vendor formData) else None),
      mp_requested_by =
        (case editingRequest of
           None \<Rightarrow> user_id_opt user
         | Some r \<Rightarrow> (case m_requested_by r of None \<Rightarrow> user_id_opt user | Some rb \<Rightarrow> Some rb))\<rparr>"

text \<open>
  \<^verbatim>\<open>user?.id === editingRequest.requested_by\<close>: strict equality, so a missing user
  (\<^verbatim>\<open>undefined\<close>) never equals a null requester.
\<close>

definition is_requester :: "User option \<Rightarrow> MaintenanceRequest \<Rightarrow> bool" where
  "is_requester user r =
     (case (user, m_requested_by r) of (Some u, Some rb) \<Rightarrow> user_id u = rb | _ \<Rightarrow> False)"

text \<open>
  The body of the \<^verbatim>\<open>try\<close> block of \<^verbatim>\<open>handleSubmit\<close>: the queries it issues, and whether it
  throws.
\<close>

definition submit_try ::
  "(string \<Rightarrow> number) \<Rightarrow> bool \<Rightarrow> User option \<Rightarrow> MaintenanceRequest option \<Rightarrow> FormData
     \<Rightarrow> error option \<Rightarrow> query list \<times> error option" where
  "submit_try parseFloat isAdmin user editingRequest formData db_error =
     (let payload = submit_payload parseFloat isAdmin user editingRequest formData
      in case editingRequest of
           Some r \<Rightarrow>
             if isAdmin \<or> (is_requester user r \<and> m_status r = MPending)
             then (let query = sb_eq ''id'' (Some (m_id r))
                                 (sb_update ''maintenance_requests'' (MaintenanceRow payload));
                       query' = (if \<not> isAdmin
                                 then sb_eq ''status'' (Some ''pending'')
                                        (sb_eq ''requested_by'' (user_id_opt user) query)
                                 else query)
                   in ([query'], db_error))
             else ([], Some (Error ''You do not have permission to update this request.''))
         | None \<Rightarrow> ([sb_insert ''maintenance_requests'' (MaintenanceRow payload)], db_error))"

definition handleSubmit ::
  "(string \<Rightarrow> number) \<Rightarrow> bool \<Rightarrow> User option \<Rightarrow> MaintenanceRequest option \<Rightarrow> FormData
     \<Rightarrow> error option \<Rightarrow> effect list" where
  "handleSubmit parseFloat isAdmin user editingRequest formData db_error =
     (case submit_try parseFloat isAdmin user editingRequest formData db_error of
        (queries, thrown) \<Rightarrow>
          SetLoading True # map Issue queries @
          (case thrown of
             None \<Rightarrow> [OnSuccess, OnClose]
           | Some e \<Rightarrow> [ConsoleError ''Error saving maintenance request:'' e]) @
          [SetLoading False])"

text \<open>
  A request whose requester is null: the schema declares
  \<^verbatim>\<open>requested_by uuid REFERENCES profiles(id) ON DELETE SET NULL\<close>, so this is the row
  left behind when the requester's profile is deleted.
\<close>

definition orphan_request :: MaintenanceRequest where
  "orphan_request =
     \<lparr>m_id = ''r1'', m_title = ''Gate'', m_description = None, m_category = ''repairs'',
      m_status = MPending, m_priority = ''medium'', m_assigned_vendor = None,
      m_requested_by = None, m_property_id = None, m_estimated_cost = None,
      m_actual_cost = None, m_scheduled_date = None, m_completed_date = None,
      m_is_recurring = False, m_recurrence_interval = None,
      m_created_at = ''2025-01-01'', m_updated_at = ''2025-01-01''\<rparr>"

definition gate_form :: FormData where
  "gate_form =
     \<lparr>f_title = ''Gate'', f_description = [], f_category = ''repairs'', f_priority = ''medium'',
      f_status = MPending, f_estimated_cost = [], f_scheduled_date = [],
      f_assigned_vendor = []\<rparr>"

section \<open>Payments (PaymentPortal component, first version)\<close>

record Property =
  pr_id :: string
  pr_unit_number :: string
  pr_address :: string
  pr_owner_id :: "string option"
  pr_square_footage :: "number option"
  pr_bedrooms :: "number option"
  pr_bathrooms :: "number option"
  pr_created_at :: string
  pr_updated_at :: string

text \<open>
  \<^verbatim>\<open>PaymentWithProperty extends Payment\<close> with the optional joined columns
  \<^verbatim>\<open>properties(unit_number, address)\<close>.
\<close>

record PropertyRef =
  unit_number :: string
  address :: string

record PaymentWithProperty = Payment +
  properties :: "PropertyRef option"

text \<open>
  The queries of \<^verbatim>\<open>loadData\<close>. An admin's two queries go out together. A non-admin's
  second query depends on the answer to the first, \<open>properties_answer\<close>: it is issued
  when the first did not fail and returned at least one property.
\<close>

definition loadData_queries ::
  "bool \<Rightarrow> User option \<Rightarrow> error + Property list option \<Rightarrow> query list" where
  "loadData_queries isAdmin user properties_answer =
     (if isAdmin
      then [sb_order ''due_date'' False
              (sb_select ''payments'' ''*, properties(unit_number, address)''),
            sb_order ''unit_number'' True (sb_select ''properties'' ''*'')]
      else sb_eq ''owner_id'' (user_id_opt user) (sb_select ''properties'' ''*'') #
           (case properties_answer of
              Inl propError \<Rightarrow> []
            | Inr userProperties \<Rightarrow>
                if or_empty userProperties \<noteq> []
                then [sb_order ''due_date'' False
                        (sb_in ''property_id'' (map pr_id (or_empty userProperties))
                           (sb_select ''payments'' ''*''))]
                else []))"

text \<open>\<^verbatim>\<open>s.replace('_', ' ')\<close> with a string pattern: the first underscore only.\<close>

fun replace_first_underscore :: "string \<Rightarrow> string" where
  "replace_first_underscore [] = []"
| "replace_first_underscore (c # cs) =
     (if c = CHR ''_'' then CHR '' '' # cs else c # replace_first_underscore cs)"

text \<open>\<^verbatim>\<open>payment.properties?.unit_number || 'Property'\<close>.\<close>

definition unit_or_default :: "PaymentWithProperty \<Rightarrow> string" where
  "unit_or_default payment =
     (case properties payment of
        None \<Rightarrow> ''Property''
      | Some pr \<Rightarrow> if truthy (unit_number pr) then unit_number pr else ''Property'')"

text \<open>
  \<^verbatim>\<open>handlePaymentStatusUpdate(paymentId, status, paymentMethod?)\<close>. Its inputs besides the
  arguments: the component's state (\<open>user\<close>, the loaded \<open>payments\<close>), the two readings
  of \<^verbatim>\<open>new Date().toISOString().split('T')[0]\<close> (\<open>today_update\<close> when the update is built,
  \<open>today_insert\<close> when the transaction is built) and the \<^verbatim>\<open>error\<close> of the database's
  answer to the update, \<open>update_error\<close>. The answer to the insert is not looked at.
\<close>

definition handlePaymentStatusUpdate ::
  "string \<Rightarrow> string \<Rightarrow> error option \<Rightarrow> User option \<Rightarrow> PaymentWithProperty list
     \<Rightarrow> string \<Rightarrow> string \<Rightarrow> string option \<Rightarrow> effect list" where
  "handlePaymentStatusUpdate today_update today_insert update_error user payments
       paymentId status paymentMethod =
     (let updateData =
            \<lparr>u_status = status,
             u_payment_date = (if status = ''paid'' then Some today_update else None),
             u_payment_method =
               (if status = ''paid'' \<and> truthy_opt paymentMethod then paymentMethod else None)\<rparr>
      in Issue (sb_eq ''id'' (Some paymentId) (sb_update ''payments'' (PaymentRow updateData))) #
         (case update_error of
            Some e \<Rightarrow> [ConsoleError ''Error updating payment:'' e]
          | None \<Rightarrow>
              (case find (\<lambda>p. p_id p = paymentId) payments of
                 Some payment \<Rightarrow>
                   if status = ''paid''
                   then [Issue (sb_insert ''transactions'' (TransactionRow
                           \<lparr>ti_type = Income,
                            ti_category = (if p_payment_type payment = ''monthly_dues''
                                           then ''hoa_fees'' else ''other_income''),
                            ti_amount = p_amount payment,
                            ti_description =
                              ''Payment for '' @ replace_first_underscore (p_payment_type payment)
                                @ '' - '' @ unit_or_default payment,
                            ti_transaction_date = today_insert,
                            ti_property_id = p_property_id payment,
                            ti_payment_method =
                              (if truthy_opt paymentMethod then paymentMethod
                               else p_payment_method payment),
                            ti_created_by = user_id_opt user\<rparr>))]
                   else []
               | None \<Rightarrow> []) @
              [LoadData]))"

section \<open>Payments (PaymentPortal component, second version)\<close>

text \<open>
  The second \<^verbatim>\<open>PaymentPortal\<close> in the payments module has its own
  \<^verbatim>\<open>handlePaymentStatusUpdate(paymentId, status)\<close>, without a payment method.
\<close>

definition handlePaymentStatusUpdate_second ::
  "string \<Rightarrow> error option \<Rightarrow> string \<Rightarrow> string \<Rightarrow> effect list" where
  "handlePaymentStatusUpdate_second today_update update_error paymentId status =
     (let updateData =
            \<lparr>u_status = status,
             u_payment_date = (if status = ''paid'' then Some today_update else None),
             u_payment_method = None\<rparr>
      in Issue (sb_eq ''id'' (Some paymentId) (sb_update ''payments'' (PaymentRow updateData))) #
         (case update_error of
            Some e \<Rightarrow> [ConsoleError ''Error updating payment:'' e]
          | None \<Rightarrow> [LoadData]))"

text \<open>The mutations among queries: everything but a select.\<close>

fun is_mutation :: "query \<Rightarrow> bool" where
  "is_mutation q = (case q_verb q of Select _ \<Rightarrow> False | _ \<Rightarrow> True)"

definition mutations :: "effect list \<Rightarrow> query list" where
  "mutations es = filter is_mutation (issued es)"

text \<open>A loaded payment of monthly dues, still pending, and a signed-in admin.\<close>

definition dues_payment :: PaymentWithProperty where
  "dues_payment =
     \<lparr>p_id = ''pay1'', p_property_id = ''prop1'', p_amount = 150, p_payment_type = ''monthly_dues'',
      p_payment_date = None, p_due_date = ''2025-02-01'', p_status = Pending,
      p_payment_method = None, p_transaction_id = None, p_notes = None,
      p_created_at = ''2025-01-01'', p_updated_at = ''2025-01-01'',
      properties = Some \<lparr>unit_number = ''12A'', address = ''1 Main St''\<rparr>\<rparr>"

text \<open>The rows a run inserts into the ledger table \<^verbatim>\<open>transactions\<close>.\<close>

fun inserted_transactions :: "query list \<Rightarrow> TransactionInsert list" where
  "inserted_transactions [] = []"
| "inserted_transactions (q # qs) =
     (case q_verb q of
        Insert (TransactionRow row) \<Rightarrow>
          if q_from q = ''transactions'' then row # inserted_transactions qs
          else inserted_transactions qs
      | _ \<Rightarrow> inserted_transactions qs)"

section \<open>Reports (ReportsPage component)\<close>

text \<open>
  \<^verbatim>\<open>dateRange\<close> is one of the strings \<^verbatim>\<open>'30' | '90' | '180' | '365'\<close>;
  \<open>parseInt\<close> reads it.
\<close>

datatype dateRange = D30 | D90 | D180 | D365

fun parseInt :: "dateRange \<Rightarrow> nat" where
  "parseInt D30 = 30"
| "parseInt D90 = 90"
| "parseInt D180 = 180"
| "parseInt D365 = 365"

definition filterTransactionsByDateRange ::
  "date_env \<Rightarrow> dateRange \<Rightarrow> Transaction list \<Rightarrow> Transaction list" where
  "filterTransactionsByDateRange env dateRange transactions =
     filter (\<lambda>t. since_days_ago env (parseInt dateRange) (t_transaction_date t)) transactions"

subsection \<open>A JavaScript Map\<close>

text \<open>
  A \<^verbatim>\<open>Map\<close> keeps its entries in insertion order: it is a list of key-value pairs
  with at most one pair per key. \<^verbatim>\<open>set\<close> on a present key replaces the value in
  place; on a new key it appends.
\<close>

definition map_has :: "'k \<Rightarrow> ('k \<times> 'v) list \<Rightarrow> bool" where
  "map_has k m = (map_of m k \<noteq> None)"

definition map_get :: "'k \<Rightarrow> ('k \<times> 'v) list \<Rightarrow> 'v option" where
  "map_get k m = map_of m k"

fun map_set :: "'k \<Rightarrow> 'v \<Rightarrow> ('k \<times> 'v) list \<Rightarrow> ('k \<times> 'v) list" where
  "map_set k v [] = [(k, v)]"
| "map_set k v ((k', v') # m) = (if k' = k then (k, v) # m else (k', v') # map_set k v m)"

subsection \<open>Number formatting\<close>

text \<open>The decimal digits of a number, as a template string prints it.\<close>

definition digit_char :: "nat \<Rightarrow> char" where
  "digit_char d = ''0123456789'' ! d"

fun digits_of :: "nat \<Rightarrow> string" where
  "digits_of n =
     (if n < 10 then [digit_char n]
      else digits_of (n div 10) @ [digit_char (n mod 10)])"

declare digits_of.simps [simp del]

definition show_int :: "int \<Rightarrow> string" where
  "show_int i = (if i < 0 then CHR ''-'' # digits_of (nat (- i)) else digits_of (nat i))"

text \<open>\<^verbatim>\<open>s.padStart(2, '0')\<close>.\<close>

definition padStart2 :: "string \<Rightarrow> string" where
  "padStart2 s = replicate (2 - length s) CHR ''0'' @ s"

subsection \<open>Monthly rollup\<close>

text \<open>
  The key of a transaction's month:
  \<^verbatim>\<open>`${date.getFullYear()}-${String(date.getMonth() + 1).padStart(2, '0')}`\<close> for
  \<^verbatim>\<open>date = new Date(t.transaction_date)\<close>.
\<close>

definition monthKey :: "date_env \<Rightarrow> Transaction \<Rightarrow> string" where
  "monthKey env t =
     show_int (full_year env (t_transaction_date t)) @ ''-'' @
     padStart2 (digits_of (month_index env (t_transaction_date t) + 1))"

record MonthlyAcc =
  acc_income :: number
  acc_expenses :: number

record MonthlyData =
  month :: string
  income :: number
  expenses :: number
  net :: number

text \<open>
  The body of the \<^verbatim>\<open>forEach\<close>. \<^verbatim>\<open>monthlyMap.get(monthKey)!\<close> cannot miss, since the key
  was set just before when it was absent; \<^verbatim>\<open>data.income += t.amount\<close> changes the object
  the map holds, that is the value at the key, in place.
\<close>

definition monthly_step ::
  "date_env \<Rightarrow> (string \<times> MonthlyAcc) list \<Rightarrow> Transaction \<Rightarrow> (string \<times> MonthlyAcc) list" where
  "monthly_step env monthlyMap t =
     (let key = monthKey env t;
          monthlyMap' = (if \<not> map_has key monthlyMap
                         then map_set key \<lparr>acc_income = 0, acc_expenses = 0\<rparr> monthlyMap
                         else monthlyMap)
      in case map_get key monthlyMap' of
           None \<Rightarrow> monthlyMap'
         | Some data \<Rightarrow>
             if t_type t = Income
             then map_set key (data\<lparr>acc_income := fl_add (acc_income data) (t_amount t)\<rparr>) monthlyMap'
             else map_set key (data\<lparr>acc_expenses := fl_add (acc_expenses data) (t_amount t)\<rparr>)
                    monthlyMap')"

text \<open>
  \<open>collation\<close> gives the sort key of a label under the platform's collation, so that
  \<^verbatim>\<open>a.localeCompare(b)\<close> compares \<open>collation a\<close> with \<open>collation b\<close>. \<^verbatim>\<open>Array.prototype.sort\<close>
  is stable, as \<open>sort_key\<close> is.
\<close>

definition getMonthlyData ::
  "date_env \<Rightarrow> (string \<Rightarrow> 'o::linorder) \<Rightarrow> dateRange \<Rightarrow> Transaction list \<Rightarrow> MonthlyData list" where
  "getMonthlyData env collation dateRange transactions =
     (let filteredTransactions = filterTransactionsByDateRange env dateRange transactions;
          monthlyMap = foldl (monthly_step env) [] filteredTransactions
      in sort_key (\<lambda>e. collation (month e))
           (map (\<lambda>(key, data).
                   \<lparr>month = month_label env (key @ ''-01''),
                    income = acc_income data,
                    expenses = acc_expenses data,
                    net = fl_sub (acc_income data) (acc_expenses data)\<rparr>)
              monthlyMap))"

subsection \<open>Category rollup\<close>

record CategoryAcc =
  acc_amount :: number
  acc_count :: nat

record CategoryData =
  category :: string
  amount :: number
  count :: nat

definition category_step ::
  "(string \<times> CategoryAcc) list \<Rightarrow> Transaction \<Rightarrow> (string \<times> CategoryAcc) list" where
  "category_step categoryMap t =
     (let categoryMap' = (if \<not> map_has (t_category t) categoryMap
                          then map_set (t_category t) \<lparr>acc_amount = 0, acc_count = 0\<rparr> categoryMap
                          else categoryMap)
      in case map_get (t_category t) categoryMap' of
           None \<Rightarrow> categoryMap'
         | Some data \<Rightarrow>
             map_set (t_category t)
               \<lparr>acc_amount = fl_add (acc_amount data) (t_amount t),
                acc_count = acc_count data + 1\<rparr>
               categoryMap')"

text \<open>\<^verbatim>\<open>category.replace(/_/g, ' ')\<close>: every underscore.\<close>

definition replace_underscores :: "string \<Rightarrow> string" where
  "replace_underscores s = map (\<lambda>c. if c = CHR ''_'' then CHR '' '' else c) s"

text \<open>
  \<^verbatim>\<open>.sort((a, b) => b.amount - a.amount)\<close> is a stable sort by descending amount: the
  rounded difference of two doubles has the sign of their exact difference. It is a
  stable ascending sort on the negated amount.
\<close>

definition getCategoryData ::
  "date_env \<Rightarrow> dateRange \<Rightarrow> Transaction list \<Rightarrow> txn_type \<Rightarrow> CategoryData list" where
  "getCategoryData env dateRange transactions type =
     (let filteredTransactions =
            filter (\<lambda>t. t_type t = type) (filterTransactionsByDateRange env dateRange transactions);
          categoryMap = foldl category_step [] filteredTransactions
      in sort_key (\<lambda>e. - amount e)
           (map (\<lambda>(cat, data).
                   \<lparr>category = replace_underscores cat,
                    amount = acc_amount data,
                    count = acc_count data\<rparr>)
              categoryMap))"

section \<open>A concrete browser and a concrete ledger\<close>

text \<open>
  A browser whose clock reads noon of 15 March 2025, universal time, with the en-US
  calendar. Dates are the database's ISO strings \<^verbatim>\<open>YYYY-MM-DD\<close>, which \<^verbatim>\<open>new Date\<close> reads
  as midnight, universal time, of that day: a date is on or after the instant \<open>n\<close>
  days before noon of 15 March exactly when it is after the day \<open>n\<close> days before
  15 March.
\<close>

definition read_nat :: "string \<Rightarrow> nat" where
  "read_nat s = foldl (\<lambda>n c. 10 * n + (of_char c - 48)) 0 s"

definition iso_day :: "string \<Rightarrow> nat" where
  "iso_day d = read_nat (filter (\<lambda>c. c \<noteq> CHR ''-'') d)"

definition month_names :: "string list" where
  "month_names = [''Jan'', ''Feb'', ''Mar'', ''Apr'', ''May'', ''Jun'',
                  ''Jul'', ''Aug'', ''Sep'', ''Oct'', ''Nov'', ''Dec'']"

definition noon_15_march_2025 :: date_env where
  "noon_15_march_2025 =
     \<lparr>since_days_ago = (\<lambda>n d. iso_day d >
          (if n = 30 then 20250213 else if n = 90 then 20241215
           else if n = 180 then 20240916 else 20240315)),
      since_year_start = (\<lambda>d. iso_day d \<ge> 20250101),
      full_year = (\<lambda>d. int (read_nat (take 4 d))),
      month_index = (\<lambda>d. read_nat (take 2 (drop 5 d)) - 1),
      month_label = (\<lambda>d. month_names ! (read_nat (take 2 (drop 5 d)) - 1) @ '' '' @ take 4 d)\<rparr>"

definition txn :: "string \<Rightarrow> txn_type \<Rightarrow> string \<Rightarrow> number \<Rightarrow> string \<Rightarrow> Transaction" where
  "txn i ty cat amt date =
     \<lparr>t_id = i, t_type = ty, t_category = cat, t_amount = amt, t_description = None,
      t_transaction_date = date, t_property_id = None, t_maintenance_request_id = None,
      t_payment_method = None, t_reference_number = None, t_created_by = None,
      t_created_at = date, t_updated_at = date\<rparr>"

definition ledger :: "Transaction list" where
  "ledger =
     [txn ''t0'' Expense ''repairs'' 999 ''2024-01-15'',
      txn ''t1'' Expense ''landscaping'' 200 ''2025-01-10'',
      txn ''t2'' Income ''hoa_fees'' 500 ''2025-02-01'',
      txn ''t3'' Expense ''pool_service'' 120 ''2025-02-05'',
      txn ''t4'' Expense ''landscaping'' 100 ''2025-02-20'']"

text \<open>
  The same moment read by a browser in America/New_York, four or five hours behind
  universal time. Midnight, universal time, of a day is the evening of the day before
  there, so the local year and month of a date are those of its eve. The instant \<open>n\<close>
  days before local noon is again inside the day \<open>n\<close> days before 15 March, and the
  local start of the year is five hours into 1 January.
\<close>

definition eve_year_month :: "string \<Rightarrow> nat \<times> nat" where
  "eve_year_month d =
     (let y = read_nat (take 4 d); m = read_nat (take 2 (drop 5 d));
          day = read_nat (take 2 (drop 8 d))
      in if 1 < day then (y, m) else if 1 < m then (y, m - 1) else (y - 1, 12))"

definition new_york_noon_15_march_2025 :: date_env where
  "new_york_noon_15_march_2025 =
     \<lparr>since_days_ago = (\<lambda>n d. iso_day d >
          (if n = 30 then 20250213 else if n = 90 then 20241215
           else if n = 180 then 20240916 else 20240315)),
      since_year_start = (\<lambda>d. iso_day d > 20250101),
      full_year = (\<lambda>d. int (fst (eve_year_month d))),
      month_index = (\<lambda>d. snd (eve_year_month d) - 1),
      month_label = (\<lambda>d. month_names ! (snd (eve_year_month d) - 1) @ '' '' @
                          digits_of (fst (eve_year_month d)))\<rparr>"

text \<open>
  Three expenses in two categories, with the amounts 0.10, 0.10 and 1.10 as the doubles
  they arrive as.
\<close>

definition small_expenses :: "Transaction list" where
  "small_expenses =
     [txn ''e1'' Expense ''utilities'' (double_of (1 / 10)) ''2025-02-03'',
      txn ''e2'' Expense ''cleaning'' (double_of (1 / 10)) ''2025-02-04'',
      txn ''e3'' Expense ''utilities'' (double_of (11 / 10)) ''2025-02-05'']"

section \<open>Profiles: the sign-up form and the database trigger\<close>

subsection \<open>The sign-up form (LoginForm component)\<close>

datatype form_mode = Login | Register

text \<open>The form's state, one field per \<^verbatim>\<open>useState\<close>.\<close>

record LoginFormState =
  lf_mode :: form_mode
  lf_email :: string
  lf_password :: string
  lf_fullName :: string
  lf_role :: string
  lf_error :: string
  lf_success :: string
  lf_loading :: bool

definition initial_form :: LoginFormState where
  "initial_form =
     \<lparr>lf_mode = Login, lf_email = [], lf_password = [], lf_fullName = [],
      lf_role = ''resident'', lf_error = [], lf_success = [], lf_loading = False\<rparr>"

text \<open>
  The values of the \<^verbatim>\<open><option>\<close>s of the role \<^verbatim>\<open><select>\<close>, in order. A change event of
  the select carries the value of one of its options.
\<close>

definition role_options :: "string list" where
  "role_options = [''resident'', ''admin'']"

datatype form_event =
    ClickSignIn
  | ClickRegister
  | TypeFullName string
  | TypeEmail string
  | TypePassword string
  | ChooseRole nat
  | SubmitResolved
  | SubmitRejected string

text \<open>
  What each event does to the state. \<open>ChooseRole i\<close> is the user picking the \<open>i\<close>-th
  option; \<open>SubmitResolved\<close> and \<open>SubmitRejected\<close> are a submission whose \<^verbatim>\<open>signIn\<close> or
  \<^verbatim>\<open>signUp\<close> resolves or throws (an empty message falls back to the form's own).
\<close>

fun form_step :: "LoginFormState \<Rightarrow> form_event \<Rightarrow> LoginFormState" where
  "form_step s ClickSignIn = s\<lparr>lf_mode := Login, lf_error := [], lf_success := []\<rparr>"
| "form_step s ClickRegister = s\<lparr>lf_mode := Register, lf_error := [], lf_success := []\<rparr>"
| "form_step s (TypeFullName v) = s\<lparr>lf_fullName := v\<rparr>"
| "form_step s (TypeEmail v) = s\<lparr>lf_email := v\<rparr>"
| "form_step s (TypePassword v) = s\<lparr>lf_password := v\<rparr>"
| "form_step s (ChooseRole i) =
     (if i < length role_options then s\<lparr>lf_role := role_options ! i\<rparr> else s)"
| "form_step s SubmitResolved =
     (case lf_mode s of
        Login \<Rightarrow> s\<lparr>lf_error := [], lf_success := [], lf_loading := False\<rparr>
      | Register \<Rightarrow>
          s\<lparr>lf_error := [],
            lf_success := ''Account created successfully! You can now sign in.'',
            lf_mode := Login, lf_password := [], lf_loading := False\<rparr>)"
| "form_step s (SubmitRejected message) =
     s\<lparr>lf_error := (if truthy message then message
                      else case lf_mode s of
                             Login \<Rightarrow> ''Failed to sign in''
                           | Register \<Rightarrow> ''Failed to create account''),
       lf_success := [], lf_loading := False\<rparr>"

text \<open>The call \<^verbatim>\<open>handleSubmit\<close> makes on the authentication context.\<close>

datatype auth_call = SignIn string string | SignUp string string string string

definition submit_call :: "LoginFormState \<Rightarrow> auth_call" where
  "submit_call s =
     (case lf_mode s of
        Login \<Rightarrow> SignIn (lf_email s) (lf_password s)
      | Register \<Rightarrow> SignUp (lf_email s) (lf_password s) (lf_fullName s) (lf_role s))"

subsection \<open>The profiles table and its trigger\<close>

record Profile =
  pf_id :: string
  pf_email :: string
  pf_full_name :: string
  pf_role :: string
  pf_phone :: "string option"
  pf_created_at :: string
  pf_updated_at :: string

text \<open>The table's \<^verbatim>\<open>CHECK (role IN ('admin', 'resident'))\<close>.\<close>

definition role_check :: "string \<Rightarrow> bool" where
  "role_check r = (r = ''admin'' \<or> r = ''resident'')"

text \<open>
  The row of \<^verbatim>\<open>auth.users\<close> the trigger sees as \<^verbatim>\<open>NEW\<close>: its id, its email and the two
  texts \<^verbatim>\<open>raw_user_meta_data->>'full_name'\<close> and \<^verbatim>\<open>raw_user_meta_data->>'role'\<close>, each null
  when the metadata has no such key.
\<close>

record AuthUser =
  au_id :: string
  au_email :: "string option"
  au_meta_full_name :: "string option"
  au_meta_role :: "string option"

datatype sql_error = NotNullViolation | CheckViolation | UniqueViolation

definition coalesce :: "'a option \<Rightarrow> 'a \<Rightarrow> 'a" where
  "coalesce v d = (case v of None \<Rightarrow> d | Some x \<Rightarrow> x)"

text \<open>\<^verbatim>\<open>split_part(email, '@', 1)\<close>: the text before the first \<^verbatim>\<open>@\<close>.\<close>

definition split_part_at_1 :: "string \<Rightarrow> string" where
  "split_part_at_1 s = takeWhile (\<lambda>c. c \<noteq> CHR ''@'') s"

text \<open>
  \<^verbatim>\<open>INSERT INTO profiles ... ON CONFLICT (id) DO NOTHING\<close>. The row's constraints are
  checked first; a row with the same id leaves the table as it is; the email is unique.
\<close>

definition insert_profile :: "Profile list \<Rightarrow> Profile \<Rightarrow> sql_error + Profile list" where
  "insert_profile profiles row =
     (if \<not> role_check (pf_role row) then Inl CheckViolation
      else if pf_id row \<in> set (map pf_id profiles) then Inr profiles
      else if pf_email row \<in> set (map pf_email profiles) then Inl UniqueViolation
      else Inr (profiles @ [row]))"

text \<open>
  \<^verbatim>\<open>handle_new_user()\<close>, at the time \<open>now\<close>. The columns the insert does not name take
  their defaults.
\<close>

definition handle_new_user :: "string \<Rightarrow> Profile list \<Rightarrow> AuthUser \<Rightarrow> sql_error + Profile list" where
  "handle_new_user now profiles new =
     (case au_email new of
        None \<Rightarrow> Inl NotNullViolation
      | Some email \<Rightarrow>
          insert_profile profiles
            \<lparr>pf_id = au_id new,
             pf_email = email,
             pf_full_name = coalesce (au_meta_full_name new) (split_part_at_1 email),
             pf_role = coalesce (au_meta_role new) ''resident'',
             pf_phone = None,
             pf_created_at = now,
             pf_updated_at = now\<rparr>)"

text \<open>
  The trigger runs after each insert on \<^verbatim>\<open>auth.users\<close>, inside the insert's transaction:
  when it raises, the sign-up fails and the profiles are as before.
\<close>

fun sign_ups :: "Profile list \<Rightarrow> (string \<times> AuthUser) list \<Rightarrow> Profile list" where
  "sign_ups profiles [] = profiles"
| "sign_ups profiles ((now, new) # rest) =
     (case handle_new_user now profiles new of
        Inl e \<Rightarrow> sign_ups profiles rest
      | Inr profiles' \<Rightarrow> sign_ups profiles' rest)"

text \<open>Three sign-ups: an admin, a user whose metadata asks for a role the table does not
  know, and a user whose metadata names no role.\<close>

definition ann :: AuthUser where
  "ann = \<lparr>au_id = ''u1'', au_email = Some ''ann@hoa.com'', au_meta_full_name = Some ''Ann'',
           au_meta_role = Some ''admin''\<rparr>"

definition mallory :: AuthUser where
  "mallory = \<lparr>au_id = ''u2'', au_email = Some ''mallory@hoa.com'', au_meta_full_name = None,
               au_meta_role = Some ''superuser''\<rparr>"

definition bob :: AuthUser where
  "bob = \<lparr>au_id = ''u3'', au_email = Some ''bob@hoa.com'', au_meta_full_name = None,
           au_meta_role = None\<rparr>"

section \<open>Sums\<close>

lemma foldl_plus_sum_list:
  "foldl (\<lambda>sum x. sum + f x) a xs = a + sum_list (map f xs)" for a :: number
  by (induction xs arbitrary: a) (simp_all add: add.assoc)

lemma reduce_sum_sum_list: "reduce_sum f xs = sum_list (map f xs)"
  by (simp add: reduce_sum_def foldl_plus_sum_list)

lemma status_text_pending: "status_text s = ''pending'' \<longleftrightarrow> s = Pending"
  by (cases s) simp_all

lemma sum_list_filter_pending_or_overdue:
  "sum_list (map p_amount (filter (\<lambda>p. p_status p = Pending \<or> p_status p = Overdue) ps))
     = sum_list (map p_amount (filter (\<lambda>p. p_status p = Pending) ps))
     + sum_list (map p_amount (filter (\<lambda>p. p_status p = Overdue) ps))"
  by (induction ps) auto

section \<open>Grouping with a Map\<close>

text \<open>
  Facts about \<open>map_set\<close> and about a fold whose step looks a key up (or starts from an
  initial value), updates the value and stores it back: both rollups are such folds.
\<close>

lemma map_of_map_set: "map_of (map_set k v m) = (map_of m)(k \<mapsto> v)"
  by (induction m) (auto simp: fun_eq_iff)

lemma keys_map_set:
  "map fst (map_set k v m) = (if k \<in> fst ` set m then map fst m else map fst m @ [k])"
  by (induction m) (force+)

lemma distinct_map_set: "distinct (map fst m) \<Longrightarrow> distinct (map fst (map_set k v m))"
  by (simp add: keys_map_set)

lemma fold_group_lookup:
  assumes step: "\<And>m t. step m t
      = map_set (key t) (upd t (case map_of m (key t) of None \<Rightarrow> init | Some d \<Rightarrow> d)) m"
  shows "map_of (foldl step m ts) k =
     (if k \<in> key ` set ts
      then Some (foldl (\<lambda>d t. upd t d) (case map_of m k of None \<Rightarrow> init | Some d \<Rightarrow> d)
                   (filter (\<lambda>t. key t = k) ts))
      else map_of m k)"
proof (induction ts arbitrary: m)
  case Nil
  then show ?case by simp
next
  case (Cons t ts)
  have m1: "map_of (step m t)
      = (map_of m)(key t \<mapsto> upd t (case map_of m (key t) of None \<Rightarrow> init | Some d \<Rightarrow> d))"
    by (simp add: step map_of_map_set)
  have e: "filter (\<lambda>t. key t = k) ts = []" if "k \<notin> key ` set ts"
    using that by (auto simp: filter_empty_conv)
  show ?case
    unfolding foldl_Cons Cons.IH [of "step m t"] m1 using e by auto
qed

lemma fold_group_keys:
  assumes step: "\<And>m t. step m t
      = map_set (key t) (upd t (case map_of m (key t) of None \<Rightarrow> init | Some d \<Rightarrow> d)) m"
  shows "set (map fst (foldl step m ts)) = set (map fst m) \<union> key ` set ts"
proof (induction ts arbitrary: m)
  case Nil
  then show ?case by simp
next
  case (Cons t ts)
  have k1: "set (map fst (step m t)) = insert (key t) (set (map fst m))"
    by (auto simp add: step keys_map_set)
  show ?case
    using Cons.IH [of "step m t"] k1 by auto
qed

lemma fold_group_distinct:
  assumes step: "\<And>m t. step m t
      = map_set (key t) (upd t (case map_of m (key t) of None \<Rightarrow> init | Some d \<Rightarrow> d)) m"
  shows "distinct (map fst m) \<Longrightarrow> distinct (map fst (foldl step m ts))"
proof (induction ts arbitrary: m)
  case Nil
  then show ?case by simp
next
  case (Cons t ts)
  from Cons.prems have "distinct (map fst (step m t))"
    by (simp add: step distinct_map_set)
  then show ?case
    using Cons.IH [of "step m t"] by simp
qed

lemma map_set_twice: "map_set k v (map_set k w m) = map_set k v m"
  by (induction m) auto

lemma monthly_step_upsert:
  "monthly_step env m t =
     map_set (monthKey env t)
       ((\<lambda>t d. if t_type t = Income then d\<lparr>acc_income := fl_add (acc_income d) (t_amount t)\<rparr>
                else d\<lparr>acc_expenses := fl_add (acc_expenses d) (t_amount t)\<rparr>) t
          (case map_of m (monthKey env t) of
             None \<Rightarrow> \<lparr>acc_income = 0, acc_expenses = 0\<rparr> | Some d \<Rightarrow> d))
       m"
  by (cases "map_of m (monthKey env t)")
     (simp_all add: monthly_step_def Let_def map_has_def map_get_def map_of_map_set map_set_twice)

lemma alist_by_keys:
  "distinct (map fst m) \<Longrightarrow> map (\<lambda>k. (k, the (map_of m k))) (map fst m) = m"
  unfolding map_map by (rule map_idI) auto

lemma mset_alist:
  assumes "distinct (map fst m)"
  shows "mset m = {# (k, the (map_of m k)). k \<in># mset_set (set (map fst m)) #}"
proof -
  have "mset m = mset (map (\<lambda>k. (k, the (map_of m k))) (map fst m))"
    using alist_by_keys [OF assms] by simp
  also have "\<dots> = {# (k, the (map_of m k)). k \<in># mset (map fst m) #}"
    by (simp only: mset_map)
  also have "mset (map fst m) = mset_set (set (map fst m))"
    using assms by (simp only: mset_set_set)
  finally show ?thesis .
qed

section \<open>Evaluating the rounding\<close>

lemma floor_rat_numeral [simp]:
  "\<lfloor>(numeral a :: rat) / numeral b\<rfloor> = numeral a div numeral b"
  using floor_divide_of_int_eq [of "numeral a" "numeral b", where ?'a = rat] by simp

lemmas round_double_eval =
  round_double_def exponent_of_def round_half_even_def pow2_def bit_length.simps Let_def

lemma double_of_tenth: "double_of (1 / 10) = 3602879701896397 / 36028797018963968"
  by (simp add: double_of_def round_double_eval)

lemma double_of_eleven_tenths: "double_of (11 / 10) = 2476979795053773 / 2251799813685248"
  by (simp add: double_of_def round_double_eval)

text \<open>
  The rounding at values whose doubles are well known: 0.1 + 0.2 is
  0.30000000000000004, 0.1 - 0.3 is -0.19999999999999998, and the two integers next to
  \<open>2^53\<close> that lie halfway between doubles go to the even neighbour.
\<close>

lemma round_double_examples:
  "fl_add (double_of (1 / 10)) (double_of (2 / 10)) = 1351079888211149 / 4503599627370496"
  "fl_sub (double_of (1 / 10)) (double_of (3 / 10)) = - (7205759403792793 / 36028797018963968)"
  "double_of (1 / 3) = 6004799503160661 / 18014398509481984"
  "round_double 9007199254740993 = 9007199254740992"
  "round_double 9007199254740995 = 9007199254740996"
  "round_double (1 / 4) = 1 / 4"
  by (simp_all add: fl_add_def fl_sub_def double_of_def round_double_eval)

section \<open>The concrete ledger in the two browsers\<close>

lemma ledger_last_90_days:
  "filterTransactionsByDateRange noon_15_march_2025 D90 ledger = tl ledger"
  by (simp add: filterTransactionsByDateRange_def noon_15_march_2025_def ledger_def txn_def
      iso_day_def read_nat_def)

lemma ledger_last_90_days_new_york:
  "filterTransactionsByDateRange new_york_noon_15_march_2025 D90 ledger = tl ledger"
  by (simp add: filterTransactionsByDateRange_def new_york_noon_15_march_2025_def ledger_def
      txn_def iso_day_def read_nat_def)

lemma ledger_sums:
  "fl_add 0 200 = 200" "fl_add 0 500 = 500" "fl_add 0 120 = 120" "fl_add 120 100 = 220"
  "fl_add 200 100 = 300" "fl_sub 500 200 = 300" "fl_sub 0 220 = - 220"
  "fl_sub 0 200 = - 200" "fl_sub 500 220 = 280"
  by (simp_all add: fl_add_def fl_sub_def round_double_eval)

section \<open>Balance-sheet identity\<close>

text \<open>
  Claim C10. For every list of transactions, every list of payments, both period
  selections and every reading of the clock, the sheet returned by
  \<open>calculateBalanceSheet\<close> has total assets equal to cash plus accounts receivable,
  retained earnings equal to total assets minus total liabilities, and total assets
  equal to total liabilities plus total equity.
\<close>

theorem calculateBalanceSheet_balances:
  "(let s = calculateBalanceSheet env period transactions payments in
      assets_total (assets s) = cash (assets s) + accountsReceivable (assets s)
    \<and> retainedEarnings (equity s) = assets_total (assets s) - liabilities_total (liabilities s)
    \<and> assets_total (assets s) = liabilities_total (liabilities s) + equity_total (equity s))"
  by (simp add: calculateBalanceSheet_def Let_def)

section \<open>Pending totals of the dashboard and of the payments page\<close>

text \<open>
  Claim C9. Let \<open>table\<close> be the payment rows the caller may see. The dashboard's Pending
  Payments figure, computed from the answer to its query with \<^verbatim>\<open>.eq('status', 'pending')\<close>,
  is the sum of the amounts of the payments whose status is exactly pending (overdue
  payments are left out); the payments page's pending total over the same rows is the sum
  over the payments whose status is pending or overdue; and the two figures are equal
  exactly when the amounts of the overdue payments sum to zero.
\<close>

theorem dashboard_pending_vs_totalPending:
  "(let dashboard = pendingPayments (loadDashboardData transactions
          (Some (select_eq (\<lambda>p. status_text (p_status p)) ''pending'' table)) maintenance)
    in dashboard = sum_list (map p_amount (filter (\<lambda>p. p_status p = Pending) table))
     \<and> totalPending table
         = sum_list (map p_amount (filter (\<lambda>p. p_status p = Pending \<or> p_status p = Overdue) table))
     \<and> (dashboard = totalPending table
          \<longleftrightarrow> sum_list (map p_amount (filter (\<lambda>p. p_status p = Overdue) table)) = 0))"
proof -
  have d: "pendingPayments (loadDashboardData transactions
          (Some (select_eq (\<lambda>p. status_text (p_status p)) ''pending'' table)) maintenance)
     = sum_list (map p_amount (filter (\<lambda>p. p_status p = Pending) table))"
    by (simp add: loadDashboardData_def or_empty_def Let_def
        select_eq_def reduce_sum_sum_list status_text_pending)
  have t: "totalPending table
     = sum_list (map p_amount (filter (\<lambda>p. p_status p = Pending \<or> p_status p = Overdue) table))"
    by (simp add: totalPending_def reduce_sum_sum_list)
  show ?thesis
    unfolding Let_def d t sum_list_filter_pending_or_overdue by simp
qed

section \<open>Role-gated maintenance mutations\<close>

text \<open>The buttons are shown exactly when the submission's own gate lets the edit through.\<close>

lemma shows_actions_iff_gate:
  "shows_actions isAdmin user r \<longleftrightarrow> isAdmin \<or> (is_requester user r \<and> m_status r = MPending)"
  by (auto simp: shows_actions_def is_requester_def split: option.splits)

text \<open>
  Claim C1. Every delete issues one query, a delete on the maintenance requests. When a
  non-admin user issues it, the query is filtered by the request id and, in addition,
  to rows whose \<^verbatim>\<open>requested_by\<close> is the user's id and whose \<^verbatim>\<open>status\<close> is pending; an
  admin's delete is filtered by the request id only. When a non-admin user submits an
  edit of a request that is not theirs or is not pending, no query is issued and the
  submission fails with the error \<^verbatim>\<open>You do not have permission to update this request.\<close>
  (the handler logs it and calls neither callback). An admin's edit always issues its
  update, filtered by the request id only.
\<close>

theorem maintenance_mutations_role_gated:
  "issued (handleDelete isAdmin user requests db_error rid) = [handleDelete_query isAdmin user rid]
   \<and> q_from (handleDelete_query isAdmin user rid) = ''maintenance_requests''
   \<and> q_verb (handleDelete_query isAdmin user rid) = Delete
   \<and> q_filters (handleDelete_query False (Some u) rid)
       = [Eq ''id'' (Some rid), Eq ''requested_by'' (Some (user_id u)), Eq ''status'' (Some ''pending'')]
   \<and> q_filters (handleDelete_query True user rid) = [Eq ''id'' (Some rid)]
   \<and> (m_requested_by r \<noteq> Some (user_id u) \<or> m_status r \<noteq> MPending \<longrightarrow>
        handleSubmit parseFloat False (Some u) (Some r) formData db_error
        = [SetLoading True,
           ConsoleError ''Error saving maintenance request:''
             (Error ''You do not have permission to update this request.''),
           SetLoading False])
   \<and> issued (handleSubmit parseFloat True user (Some r) formData db_error)
       = [\<lparr>q_from = ''maintenance_requests'',
           q_verb = Update (MaintenanceRow (submit_payload parseFloat True user (Some r) formData)),
           q_filters = [Eq ''id'' (Some (m_id r))],
           q_order = None\<rparr>]"
proof -
  have del: "issued (handleDelete isAdmin user requests db_error rid)
      = [handleDelete_query isAdmin user rid]"
    by (cases db_error) (simp_all add: handleDelete_def)
  have shape: "q_from (handleDelete_query isAdmin user rid) = ''maintenance_requests''
      \<and> q_verb (handleDelete_query isAdmin user rid) = Delete"
    by (simp add: handleDelete_query_def sb_eq_def sb_delete_def Let_def)
  have resident: "q_filters (handleDelete_query False (Some u) rid)
      = [Eq ''id'' (Some rid), Eq ''requested_by'' (Some (user_id u)), Eq ''status'' (Some ''pending'')]"
    by (simp add: handleDelete_query_def sb_eq_def sb_delete_def user_id_opt_def Let_def)
  have admin: "q_filters (handleDelete_query True user rid) = [Eq ''id'' (Some rid)]"
    by (simp add: handleDelete_query_def sb_eq_def sb_delete_def Let_def)
  have denied: "handleSubmit parseFloat False (Some u) (Some r) formData db_error
        = [SetLoading True,
           ConsoleError ''Error saving maintenance request:''
             (Error ''You do not have permission to update this request.''),
           SetLoading False]"
    if "m_requested_by r \<noteq> Some (user_id u) \<or> m_status r \<noteq> MPending"
  proof -
    from that have "\<not> (is_requester (Some u) r \<and> m_status r = MPending)"
      by (auto simp: is_requester_def split: option.splits)
    then show ?thesis
      by (simp add: handleSubmit_def submit_try_def Let_def)
  qed
  have edit: "issued (handleSubmit parseFloat True user (Some r) formData db_error)
       = [\<lparr>q_from = ''maintenance_requests'',
           q_verb = Update (MaintenanceRow (submit_payload parseFloat True user (Some r) formData)),
           q_filters = [Eq ''id'' (Some (m_id r))],
           q_order = None\<rparr>]"
    by (cases db_error) (simp_all add: handleSubmit_def submit_try_def Let_def sb_eq_def sb_update_def)
  from del shape resident admin denied edit show ?thesis by blast
qed

theorem maintenance_mutations_role_gated_witness:
  "m_requested_by orphan_request \<noteq> Some (user_id \<lparr>user_id = ''u2''\<rparr>)
   \<and> handleSubmit (\<lambda>s. 0) False (Some \<lparr>user_id = ''u2''\<rparr>) (Some orphan_request) gate_form None
     = [SetLoading True,
        ConsoleError ''Error saving maintenance request:''
          (Error ''You do not have permission to update this request.''),
        SetLoading False]"
  using maintenance_mutations_role_gated
    [where r = orphan_request and u = "\<lparr>user_id = ''u2''\<rparr>" and parseFloat = "\<lambda>s. 0"
       and formData = gate_form and db_error = None]
  by (simp add: orphan_request_def)

section \<open>What a submission writes\<close>

text \<open>
  What holds of the payload. A non-admin's payload is normalised: status pending, and
  estimated cost, scheduled date and assigned vendor null. An edit of a request whose
  requester is not null keeps that requester.
\<close>

lemma submit_payload_non_admin:
  "mp_status (submit_payload parseFloat False user editingRequest formData) = MPending
   \<and> mp_estimated_cost (submit_payload parseFloat False user editingRequest formData) = None
   \<and> mp_scheduled_date (submit_payload parseFloat False user editingRequest formData) = None
   \<and> mp_assigned_vendor (submit_payload parseFloat False user editingRequest formData) = None"
  by (simp add: submit_payload_def)

lemma submit_payload_keeps_requester:
  "m_requested_by r = Some rb \<Longrightarrow>
   mp_requested_by (submit_payload parseFloat isAdmin user (Some r) formData) = Some rb"
  by (simp add: submit_payload_def)

text \<open>
  Claim C8. The claim says that for every edit by any user the payload's
  \<^verbatim>\<open>requested_by\<close> is the original request's, so that editing never reassigns a request to
  the editor. At a request whose requester is null, edited by an admin, the update is
  issued and its payload names the admin as requester.
\<close>

theorem edit_of_orphan_request_reassigns_to_editor:
  "m_requested_by orphan_request = None
   \<and> issued (handleSubmit (\<lambda>s. 0) True (Some \<lparr>user_id = ''admin-1''\<rparr>) (Some orphan_request)
        gate_form None)
     = [\<lparr>q_from = ''maintenance_requests'',
         q_verb = Update (MaintenanceRow
           \<lparr>mp_title = ''Gate'', mp_description = [], mp_category = ''repairs'',
            mp_priority = ''medium'', mp_status = MPending, mp_estimated_cost = None,
            mp_scheduled_date = None, mp_assigned_vendor = None,
            mp_requested_by = Some ''admin-1''\<rparr>),
         q_filters = [Eq ''id'' (Some ''r1'')],
         q_order = None\<rparr>]"
  by (simp add: handleSubmit_def submit_try_def submit_payload_def Let_def sb_eq_def
      sb_update_def orphan_request_def gate_form_def user_id_opt_def or_null_def truthy_def)

section \<open>The paid transition and the ledger\<close>

lemma find_by_id:
  "payment \<in> set payments \<Longrightarrow> distinct (map p_id payments) \<Longrightarrow>
   find (\<lambda>p. p_id p = p_id payment) payments = Some payment"
proof (induction payments)
  case Nil
  then show ?case by simp
next
  case (Cons a payments)
  then show ?case by (cases "a = payment") force+
qed

text \<open>
  Claim C2. Let \<open>payment\<close> be in the loaded payments, whose ids are distinct (the id is
  the table's primary key), and let the database accept the update. Updating the
  payment's status to paid issues exactly two queries: the update of the payment's row,
  which sets the status to paid, \<^verbatim>\<open>payment_date\<close> to the current date and, when a payment
  method was chosen, \<^verbatim>\<open>payment_method\<close> to it; and the insert of exactly one transaction,
  of type income, whose amount is the payment's amount and whose category is
  \<^verbatim>\<open>hoa_fees\<close> for monthly dues and \<^verbatim>\<open>other_income\<close> otherwise. Updating any payment
  to a status other than paid inserts no transaction.
\<close>

theorem paid_transition_inserts_one_transaction:
  assumes "payment \<in> set payments" and "distinct (map p_id payments)"
  shows "(let qs = issued (handlePaymentStatusUpdate today_update today_insert None user payments
                      (p_id payment) ''paid'' paymentMethod)
          in length qs = 2
           \<and> hd qs = \<lparr>q_from = ''payments'',
                       q_verb = Update (PaymentRow
                         \<lparr>u_status = ''paid'', u_payment_date = Some today_update,
                          u_payment_method =
                            (if truthy_opt paymentMethod then paymentMethod else None)\<rparr>),
                       q_filters = [Eq ''id'' (Some (p_id payment))],
                       q_order = None\<rparr>
           \<and> map (\<lambda>row. (ti_type row, ti_amount row, ti_category row)) (inserted_transactions qs)
               = [(Income, p_amount payment,
                   if p_payment_type payment = ''monthly_dues'' then ''hoa_fees''
                   else ''other_income'')])
       \<and> (status \<noteq> ''paid'' \<longrightarrow>
            inserted_transactions (issued (handlePaymentStatusUpdate today_update today_insert
              update_error user payments paymentId status paymentMethod)) = [])"
proof -
  from assms have f: "find (\<lambda>p. p_id p = p_id payment) payments = Some payment"
    by (rule find_by_id)
  have paid: "issued (handlePaymentStatusUpdate today_update today_insert None user payments
                      (p_id payment) ''paid'' paymentMethod)
      = [\<lparr>q_from = ''payments'',
          q_verb = Update (PaymentRow
            \<lparr>u_status = ''paid'', u_payment_date = Some today_update,
             u_payment_method = (if truthy_opt paymentMethod then paymentMethod else None)\<rparr>),
          q_filters = [Eq ''id'' (Some (p_id payment))],
          q_order = None\<rparr>,
         sb_insert ''transactions'' (TransactionRow
           \<lparr>ti_type = Income,
            ti_category = (if p_payment_type payment = ''monthly_dues''
                           then ''hoa_fees'' else ''other_income''),
            ti_amount = p_amount payment,
            ti_description =
              ''Payment for '' @ replace_first_underscore (p_payment_type payment)
                @ '' - '' @ unit_or_default payment,
            ti_transaction_date = today_insert,
            ti_property_id = p_property_id payment,
            ti_payment_method =
              (if truthy_opt paymentMethod then paymentMethod else p_payment_method payment),
            ti_created_by = user_id_opt user\<rparr>)]"
    by (simp add: handlePaymentStatusUpdate_def f sb_eq_def sb_update_def)
  have other: "inserted_transactions (issued (handlePaymentStatusUpdate today_update today_insert
              update_error user payments paymentId status paymentMethod)) = []"
    if "status \<noteq> ''paid''"
    using that
    by (simp add: handlePaymentStatusUpdate_def sb_eq_def sb_update_def
        split: option.splits)
  show ?thesis
    unfolding Let_def paid using other by (simp add: sb_insert_def)
qed

theorem paid_transition_inserts_one_transaction_witness:
  "dues_payment \<in> set [dues_payment] \<and> distinct (map p_id [dues_payment])
   \<and> map (\<lambda>row. (ti_type row, ti_amount row, ti_category row))
        (inserted_transactions (issued (handlePaymentStatusUpdate ''2025-02-03'' ''2025-02-04'' None
           (Some \<lparr>user_id = ''admin-1''\<rparr>) [dues_payment] ''pay1'' ''paid'' (Some ''check''))))
     = [(Income, 150, ''hoa_fees'')]
   \<and> inserted_transactions (issued (handlePaymentStatusUpdate ''2025-02-03'' ''2025-02-04''
        (Some (DbError ''timeout'')) (Some \<lparr>user_id = ''admin-1''\<rparr>) [dues_payment] ''pay1''
        ''overdue'' (Some ''check''))) = []"
proof -
  have h: "dues_payment \<in> set [dues_payment]" "distinct (map p_id [dues_payment])"
    by simp_all
  have ne: "''overdue'' \<noteq> ''paid''" by simp
  show ?thesis
    using h ne paid_transition_inserts_one_transaction [OF h, where status = "''overdue''"
      and today_update = "''2025-02-03''" and today_insert = "''2025-02-04''"
      and update_error = "Some (DbError ''timeout'')"
      and user = "Some \<lparr>user_id = ''admin-1''\<rparr>"
      and paymentId = "''pay1''" and paymentMethod = "Some ''check''"]
    by (simp add: Let_def dues_payment_def)
qed

section \<open>The two versions of the payments page\<close>

text \<open>
  The two versions do not issue the same mutations when a loaded payment is set to paid:
  the first inserts a ledger transaction, the second does not.
\<close>

theorem versions_differ_on_paid:
  "mutations (handlePaymentStatusUpdate ''2025-02-03'' ''2025-02-03'' None
      (Some \<lparr>user_id = ''admin-1''\<rparr>) [dues_payment] ''pay1'' ''paid'' None)
   \<noteq> mutations (handlePaymentStatusUpdate_second ''2025-02-03'' None ''pay1'' ''paid'')"
  by (simp add: mutations_def handlePaymentStatusUpdate_def handlePaymentStatusUpdate_second_def
      dues_payment_def sb_eq_def sb_update_def sb_insert_def truthy_opt_def)

text \<open>
  Claim C4, amended. For every payment id, every target status other than paid and the
  same answer of the database, the two versions of \<^verbatim>\<open>handlePaymentStatusUpdate\<close> issue
  the same mutations: one update of the payment's row that
  sets the status. When the target status is paid, the second version issues one
  mutation only, the update of the payment's row with the status and the payment date
  and without a payment method, and inserts no ledger transaction.
\<close>

theorem versions_agree_off_paid:
  "(status \<noteq> ''paid'' \<longrightarrow>
      mutations (handlePaymentStatusUpdate today_update today_insert update_error user payments
        paymentId status paymentMethod)
      = mutations (handlePaymentStatusUpdate_second today_update update_error paymentId status)
    \<and> mutations (handlePaymentStatusUpdate_second today_update update_error paymentId status)
      = [\<lparr>q_from = ''payments'',
          q_verb = Update (PaymentRow
            \<lparr>u_status = status, u_payment_date = None, u_payment_method = None\<rparr>),
          q_filters = [Eq ''id'' (Some paymentId)],
          q_order = None\<rparr>])
   \<and> mutations (handlePaymentStatusUpdate_second today_update update_error paymentId ''paid'')
     = [\<lparr>q_from = ''payments'',
         q_verb = Update (PaymentRow
           \<lparr>u_status = ''paid'', u_payment_date = Some today_update, u_payment_method = None\<rparr>),
         q_filters = [Eq ''id'' (Some paymentId)],
         q_order = None\<rparr>]
   \<and> inserted_transactions
        (issued (handlePaymentStatusUpdate_second today_update update_error paymentId status)) = []"
proof -
  have "handlePaymentStatusUpdate today_update today_insert update_error user payments
        paymentId status paymentMethod
      = handlePaymentStatusUpdate_second today_update update_error paymentId status"
    if "status \<noteq> ''paid''"
    using that
    by (simp add: handlePaymentStatusUpdate_def handlePaymentStatusUpdate_second_def
        split: option.splits)
  then have same: "mutations (handlePaymentStatusUpdate today_update today_insert update_error
        user payments paymentId status paymentMethod)
      = mutations (handlePaymentStatusUpdate_second today_update update_error paymentId status)"
    if "status \<noteq> ''paid''"
    using that by simp
  have upd: "mutations (handlePaymentStatusUpdate_second today_update update_error paymentId s)
      = [\<lparr>q_from = ''payments'',
          q_verb = Update (PaymentRow
            \<lparr>u_status = s, u_payment_date = (if s = ''paid'' then Some today_update else None),
             u_payment_method = None\<rparr>),
          q_filters = [Eq ''id'' (Some paymentId)],
          q_order = None\<rparr>]" for s
    by (cases update_error)
      (simp_all add: mutations_def handlePaymentStatusUpdate_second_def sb_eq_def sb_update_def)
  have none: "inserted_transactions
        (issued (handlePaymentStatusUpdate_second today_update update_error paymentId status)) = []"
    by (cases update_error)
      (simp_all add: handlePaymentStatusUpdate_second_def sb_eq_def sb_update_def)
  from same upd [of status] upd [of "''paid''"] none show ?thesis by simp
qed

theorem versions_agree_off_paid_witness:
  "''pending'' \<noteq> ''paid''
   \<and> mutations (handlePaymentStatusUpdate ''2025-02-03'' ''2025-02-03'' None
        (Some \<lparr>user_id = ''admin-1''\<rparr>) [dues_payment] ''pay1'' ''pending'' (Some ''check''))
     = mutations (handlePaymentStatusUpdate_second ''2025-02-03'' None ''pay1'' ''pending'')"
  using versions_agree_off_paid [where status = "''pending''" and today_update = "''2025-02-03''"
      and today_insert = "''2025-02-03''" and update_error = None
      and user = "Some \<lparr>user_id = ''admin-1''\<rparr>" and payments = "[dues_payment]"
      and paymentId = "''pay1''" and paymentMethod = "Some ''check''"]
  by simp

section \<open>Role-dependent queries\<close>

text \<open>
  On the maintenance page an admin and a resident do not issue the same query: the
  resident's carries a filter.
\<close>

theorem admin_and_resident_queries_differ:
  "issued (loadRequests True (Some \<lparr>user_id = ''admin-1''\<rparr>) (Inr (Some [])))
   \<noteq> issued (loadRequests False (Some \<lparr>user_id = ''resident-1''\<rparr>) (Inr (Some [])))"
  by (simp add: loadRequests_def loadRequests_query_def sb_eq_def sb_order_def sb_select_def)

text \<open>
  Claim C3, amended. On top of the database's row-level-security policies the
  application adds filters that depend on the caller's role. On the maintenance page
  a signed-in caller issues one query: an admin's has no filter, and a non-admin's is
  the same query filtered to the rows whose \<^verbatim>\<open>requested_by\<close> is the caller's id. On the
  payments page an admin issues two queries without a filter, all payments and all
  properties; a non-admin queries the properties whose \<^verbatim>\<open>owner_id\<close> is the caller's id
  and then, when there are any, only the payments whose \<^verbatim>\<open>property_id\<close> is among them.
\<close>

theorem queries_depend_on_role:
  "issued (loadRequests True (Some u) answer)
     = [\<lparr>q_from = ''maintenance_requests'', q_verb = Select ''*'', q_filters = [],
         q_order = Some (''created_at'', False)\<rparr>]
   \<and> issued (loadRequests False (Some u) answer)
     = [\<lparr>q_from = ''maintenance_requests'', q_verb = Select ''*'',
         q_filters = [Eq ''requested_by'' (Some (user_id u))],
         q_order = Some (''created_at'', False)\<rparr>]
   \<and> loadData_queries True user properties_answer
     = [\<lparr>q_from = ''payments'', q_verb = Select ''*, properties(unit_number, address)'',
         q_filters = [], q_order = Some (''due_date'', False)\<rparr>,
        \<lparr>q_from = ''properties'', q_verb = Select ''*'', q_filters = [],
         q_order = Some (''unit_number'', True)\<rparr>]
   \<and> loadData_queries False (Some u) (Inr (Some userProperties))
     = \<lparr>q_from = ''properties'', q_verb = Select ''*'',
        q_filters = [Eq ''owner_id'' (Some (user_id u))], q_order = None\<rparr> #
       (if userProperties = [] then []
        else [\<lparr>q_from = ''payments'', q_verb = Select ''*'',
                q_filters = [In ''property_id'' (map pr_id userProperties)],
                q_order = Some (''due_date'', False)\<rparr>])"
proof -
  have a: "issued (loadRequests True (Some u) answer)
     = [\<lparr>q_from = ''maintenance_requests'', q_verb = Select ''*'', q_filters = [],
         q_order = Some (''created_at'', False)\<rparr>]"
    by (cases answer)
      (simp_all add: loadRequests_def loadRequests_query_def sb_order_def sb_select_def)
  have r: "issued (loadRequests False (Some u) answer)
     = [\<lparr>q_from = ''maintenance_requests'', q_verb = Select ''*'',
         q_filters = [Eq ''requested_by'' (Some (user_id u))],
         q_order = Some (''created_at'', False)\<rparr>]"
    by (cases answer)
      (simp_all add: loadRequests_def loadRequests_query_def sb_order_def sb_select_def
        sb_eq_def Let_def)
  have pa: "loadData_queries True user properties_answer
     = [\<lparr>q_from = ''payments'', q_verb = Select ''*, properties(unit_number, address)'',
         q_filters = [], q_order = Some (''due_date'', False)\<rparr>,
        \<lparr>q_from = ''properties'', q_verb = Select ''*'', q_filters = [],
         q_order = Some (''unit_number'', True)\<rparr>]"
    by (simp add: loadData_queries_def sb_order_def sb_select_def)
  have pr: "loadData_queries False (Some u) (Inr (Some userProperties))
     = \<lparr>q_from = ''properties'', q_verb = Select ''*'',
        q_filters = [Eq ''owner_id'' (Some (user_id u))], q_order = None\<rparr> #
       (if userProperties = [] then []
        else [\<lparr>q_from = ''payments'', q_verb = Select ''*'',
                q_filters = [In ''property_id'' (map pr_id userProperties)],
                q_order = Some (''due_date'', False)\<rparr>])"
    by (simp add: loadData_queries_def sb_order_def sb_select_def sb_eq_def sb_in_def
        or_empty_def user_id_opt_def)
  from a r pa pr show ?thesis by simp
qed

section \<open>Monthly rollup\<close>

lemma monthly_acc_fold:
  "foldl (\<lambda>d t. if t_type t = Income then d\<lparr>acc_income := fl_add (acc_income d) (t_amount t)\<rparr>
                  else d\<lparr>acc_expenses := fl_add (acc_expenses d) (t_amount t)\<rparr>) d ts
   = \<lparr>acc_income = foldl (\<lambda>sum t. fl_add sum (t_amount t)) (acc_income d)
                       (filter (\<lambda>t. t_type t = Income) ts),
      acc_expenses = foldl (\<lambda>sum t. fl_add sum (t_amount t)) (acc_expenses d)
                       (filter (\<lambda>t. t_type t = Expense) ts)\<rparr>"
proof (induction ts arbitrary: d)
  case Nil
  then show ?case by simp
next
  case (Cons t ts)
  show ?case
    by (cases "t_type t") (simp_all add: Cons.IH)
qed

lemma monthly_fold_lookup:
  "map_of (foldl (monthly_step env) m ts) k =
     (if k \<in> monthKey env ` set ts
      then Some (foldl (\<lambda>d t. if t_type t = Income
                               then d\<lparr>acc_income := fl_add (acc_income d) (t_amount t)\<rparr>
                               else d\<lparr>acc_expenses := fl_add (acc_expenses d) (t_amount t)\<rparr>)
                  (case map_of m k of None \<Rightarrow> \<lparr>acc_income = 0, acc_expenses = 0\<rparr> | Some d \<Rightarrow> d)
                  (filter (\<lambda>t. monthKey env t = k) ts))
      else map_of m k)"
  by (rule fold_group_lookup [where step = "monthly_step env" and key = "monthKey env"
        and init = "\<lparr>acc_income = 0, acc_expenses = 0\<rparr>"
        and upd = "\<lambda>t d. if t_type t = Income
                          then d\<lparr>acc_income := fl_add (acc_income d) (t_amount t)\<rparr>
                          else d\<lparr>acc_expenses := fl_add (acc_expenses d) (t_amount t)\<rparr>"])
    (rule monthly_step_upsert)

text \<open>
  What the rollup does in every browser. Let \<open>f\<close> be the transactions in the selected
  date range. The result has, up to the order of the entries, exactly one entry for each
  key \<open>monthKey\<close> gives to a transaction of \<open>f\<close>. Its income and its expenses are the
  sums, accumulated in list order, of the amounts of the income and of the expense
  transactions of \<open>f\<close> with that key, and its net is their difference. Whether the key
  and the label are those of the month the transaction is dated in is up to the
  browser's time zone.
\<close>

lemma getMonthlyData_by_key:
  "(let f = filterTransactionsByDateRange env dateRange transactions in
    mset (getMonthlyData env collation dateRange transactions) =
      {# \<lparr>month = month_label env (k @ ''-01''),
          income = fl_sum t_amount (filter (\<lambda>t. monthKey env t = k \<and> t_type t = Income) f),
          expenses = fl_sum t_amount (filter (\<lambda>t. monthKey env t = k \<and> t_type t = Expense) f),
          net = fl_sub
                  (fl_sum t_amount (filter (\<lambda>t. monthKey env t = k \<and> t_type t = Income) f))
                  (fl_sum t_amount (filter (\<lambda>t. monthKey env t = k \<and> t_type t = Expense) f))\<rparr>.
         k \<in># mset_set (monthKey env ` set f) #})"
proof -
  define f where "f = filterTransactionsByDateRange env dateRange transactions"
  define m where "m = foldl (monthly_step env) [] f"
  define entry :: "string \<times> MonthlyAcc \<Rightarrow> MonthlyData" where "entry = (\<lambda>(key, data).
                   \<lparr>month = month_label env (key @ ''-01''),
                    income = acc_income data,
                    expenses = acc_expenses data,
                    net = fl_sub (acc_income data) (acc_expenses data)\<rparr>)"
  have d: "distinct (map fst m)"
    unfolding m_def by (rule fold_group_distinct [OF monthly_step_upsert]) simp
  have k: "set (map fst m) = monthKey env ` set f"
    unfolding m_def fold_group_keys [OF monthly_step_upsert] by simp
  have v: "the (map_of m k) =
     \<lparr>acc_income = fl_sum t_amount (filter (\<lambda>t. monthKey env t = k \<and> t_type t = Income) f),
      acc_expenses = fl_sum t_amount (filter (\<lambda>t. monthKey env t = k \<and> t_type t = Expense) f)\<rparr>"
    if "k \<in> monthKey env ` set f" for k
    unfolding m_def monthly_fold_lookup monthly_acc_fold fl_sum_def
    using that by (simp add: conj_commute)
  have "mset (getMonthlyData env collation dateRange transactions) = image_mset entry (mset m)"
    by (simp add: getMonthlyData_def Let_def f_def m_def entry_def)
  also have "mset m = {# (k, the (map_of m k)). k \<in># mset_set (monthKey env ` set f) #}"
    using mset_alist [OF d] unfolding k .
  finally have "mset (getMonthlyData env collation dateRange transactions)
      = {# entry (k, the (map_of m k)). k \<in># mset_set (monthKey env ` set f) #}"
    by (simp add: image_mset.compositionality comp_def)
  also have "\<dots> = {# entry (k,
       \<lparr>acc_income = fl_sum t_amount (filter (\<lambda>t. monthKey env t = k \<and> t_type t = Income) f),
        acc_expenses = fl_sum t_amount (filter (\<lambda>t. monthKey env t = k \<and> t_type t = Expense) f)\<rparr>).
       k \<in># mset_set (monthKey env ` set f) #}"
    by (rule image_mset_cong) (simp add: v)
  finally show ?thesis
    unfolding Let_def f_def [symmetric] by (simp add: entry_def)
qed

lemma ledger_keys_new_york:
  "monthKey new_york_noon_15_march_2025 (txn ''t1'' Expense ''landscaping'' 200 ''2025-01-10'') = ''2025-01''"
  "monthKey new_york_noon_15_march_2025 (txn ''t2'' Income ''hoa_fees'' 500 ''2025-02-01'') = ''2025-01''"
  "monthKey new_york_noon_15_march_2025 (txn ''t3'' Expense ''pool_service'' 120 ''2025-02-05'') = ''2025-02''"
  "monthKey new_york_noon_15_march_2025 (txn ''t4'' Expense ''landscaping'' 100 ''2025-02-20'') = ''2025-02''"
  by (simp_all add: monthKey_def new_york_noon_15_march_2025_def eve_year_month_def txn_def
      read_nat_def show_int_def padStart2_def digits_of.simps digit_char_def Let_def)

lemma ledger_labels_new_york:
  "month_label new_york_noon_15_march_2025 ''2025-01-01'' = ''Dec 2024''"
  "month_label new_york_noon_15_march_2025 ''2025-02-01'' = ''Jan 2025''"
  by (simp_all add: new_york_noon_15_march_2025_def eve_year_month_def month_names_def
      read_nat_def digits_of.simps digit_char_def Let_def)

lemma ledger_steps_new_york:
  "monthly_step new_york_noon_15_march_2025 []
     (txn ''t1'' Expense ''landscaping'' 200 ''2025-01-10'')
   = [(''2025-01'', \<lparr>acc_income = 0, acc_expenses = 200\<rparr>)]"
  "monthly_step new_york_noon_15_march_2025 [(''2025-01'', \<lparr>acc_income = 0, acc_expenses = 200\<rparr>)]
     (txn ''t2'' Income ''hoa_fees'' 500 ''2025-02-01'')
   = [(''2025-01'', \<lparr>acc_income = 500, acc_expenses = 200\<rparr>)]"
  "monthly_step new_york_noon_15_march_2025 [(''2025-01'', \<lparr>acc_income = 500, acc_expenses = 200\<rparr>)]
     (txn ''t3'' Expense ''pool_service'' 120 ''2025-02-05'')
   = [(''2025-01'', \<lparr>acc_income = 500, acc_expenses = 200\<rparr>),
      (''2025-02'', \<lparr>acc_income = 0, acc_expenses = 120\<rparr>)]"
  "monthly_step new_york_noon_15_march_2025
     [(''2025-01'', \<lparr>acc_income = 500, acc_expenses = 200\<rparr>),
      (''2025-02'', \<lparr>acc_income = 0, acc_expenses = 120\<rparr>)]
     (txn ''t4'' Expense ''landscaping'' 100 ''2025-02-20'')
   = [(''2025-01'', \<lparr>acc_income = 500, acc_expenses = 200\<rparr>),
      (''2025-02'', \<lparr>acc_income = 0, acc_expenses = 220\<rparr>)]"
  unfolding monthly_step_def ledger_keys_new_york
  by (simp_all add: map_has_def map_get_def txn_def ledger_sums)

lemma ledger_fold_new_york:
  "foldl (monthly_step new_york_noon_15_march_2025) [] (tl ledger)
   = [(''2025-01'', \<lparr>acc_income = 500, acc_expenses = 200\<rparr>),
      (''2025-02'', \<lparr>acc_income = 0, acc_expenses = 220\<rparr>)]"
  by (simp add: ledger_def ledger_steps_new_york)

text \<open>
  Claim C5. The claim says that the result has one entry for each calendar month with a
  transaction in the date range, carrying that month's income and expenses. The ledger's
  transactions of the last 90 days are an expense of 200 on 10 January 2025, an income
  of 500 on 1 February and expenses of 120 and 100 on 5 and 20 February. In a browser in
  New York the income of 1 February is filed with January's expense, and the two
  entries are labelled December 2024 and January 2025.
\<close>

theorem getMonthlyData_west_of_utc:
  "map (\<lambda>t. (t_transaction_date t, t_type t, t_amount t))
       (filterTransactionsByDateRange new_york_noon_15_march_2025 D90 ledger)
     = [(''2025-01-10'', Expense, 200), (''2025-02-01'', Income, 500),
        (''2025-02-05'', Expense, 120), (''2025-02-20'', Expense, 100)]
   \<and> getMonthlyData new_york_noon_15_march_2025 (\<lambda>s. s) D90 ledger
     = [\<lparr>month = ''Dec 2024'', income = 500, expenses = 200, net = 300\<rparr>,
        \<lparr>month = ''Jan 2025'', income = 0, expenses = 220, net = - 220\<rparr>]"
proof -
  have f: "map (\<lambda>t. (t_transaction_date t, t_type t, t_amount t))
       (filterTransactionsByDateRange new_york_noon_15_march_2025 D90 ledger)
     = [(''2025-01-10'', Expense, 200), (''2025-02-01'', Income, 500),
        (''2025-02-05'', Expense, 120), (''2025-02-20'', Expense, 100)]"
    unfolding ledger_last_90_days_new_york by (simp add: ledger_def txn_def)
  have g: "getMonthlyData new_york_noon_15_march_2025 (\<lambda>s. s) D90 ledger
     = [\<lparr>month = ''Dec 2024'', income = 500, expenses = 200, net = 300\<rparr>,
        \<lparr>month = ''Jan 2025'', income = 0, expenses = 220, net = - 220\<rparr>]"
    unfolding getMonthlyData_def ledger_last_90_days_new_york Let_def ledger_fold_new_york
    by (simp add: ledger_labels_new_york ledger_sums)
  from f g show ?thesis by (rule conjI)
qed

text \<open>
  In the browser on universal time the same ledger gives what the claim says: an entry
  for January with its expense and an entry for February with its income and expenses.
\<close>

lemma ledger_keys_utc:
  "monthKey noon_15_march_2025 (txn ''t1'' Expense ''landscaping'' 200 ''2025-01-10'') = ''2025-01''"
  "monthKey noon_15_march_2025 (txn ''t2'' Income ''hoa_fees'' 500 ''2025-02-01'') = ''2025-02''"
  "monthKey noon_15_march_2025 (txn ''t3'' Expense ''pool_service'' 120 ''2025-02-05'') = ''2025-02''"
  "monthKey noon_15_march_2025 (txn ''t4'' Expense ''landscaping'' 100 ''2025-02-20'') = ''2025-02''"
  by (simp_all add: monthKey_def noon_15_march_2025_def txn_def
      read_nat_def show_int_def padStart2_def digits_of.simps digit_char_def)

lemma ledger_labels_utc:
  "month_label noon_15_march_2025 ''2025-01-01'' = ''Jan 2025''"
  "month_label noon_15_march_2025 ''2025-02-01'' = ''Feb 2025''"
  by (simp_all add: noon_15_march_2025_def month_names_def read_nat_def)

lemma ledger_steps_utc:
  "monthly_step noon_15_march_2025 []
     (txn ''t1'' Expense ''landscaping'' 200 ''2025-01-10'')
   = [(''2025-01'', \<lparr>acc_income = 0, acc_expenses = 200\<rparr>)]"
  "monthly_step noon_15_march_2025 [(''2025-01'', \<lparr>acc_income = 0, acc_expenses = 200\<rparr>)]
     (txn ''t2'' Income ''hoa_fees'' 500 ''2025-02-01'')
   = [(''2025-01'', \<lparr>acc_income = 0, acc_expenses = 200\<rparr>),
      (''2025-02'', \<lparr>acc_income = 500, acc_expenses = 0\<rparr>)]"
  "monthly_step noon_15_march_2025
     [(''2025-01'', \<lparr>acc_income = 0, acc_expenses = 200\<rparr>),
      (''2025-02'', \<lparr>acc_income = 500, acc_expenses = 0\<rparr>)]
     (txn ''t3'' Expense ''pool_service'' 120 ''2025-02-05'')
   = [(''2025-01'', \<lparr>acc_income = 0, acc_expenses = 200\<rparr>),
      (''2025-02'', \<lparr>acc_income = 500, acc_expenses = 120\<rparr>)]"
  "monthly_step noon_15_march_2025
     [(''2025-01'', \<lparr>acc_income = 0, acc_expenses = 200\<rparr>),
      (''2025-02'', \<lparr>acc_income = 500, acc_expenses = 120\<rparr>)]
     (txn ''t4'' Expense ''landscaping'' 100 ''2025-02-20'')
   = [(''2025-01'', \<lparr>acc_income = 0, acc_expenses = 200\<rparr>),
      (''2025-02'', \<lparr>acc_income = 500, acc_expenses = 220\<rparr>)]"
  unfolding monthly_step_def ledger_keys_utc
  by (simp_all add: map_has_def map_get_def txn_def ledger_sums)

lemma getMonthlyData_on_utc:
  "getMonthlyData noon_15_march_2025 (\<lambda>s. s) D90 ledger
     = [\<lparr>month = ''Feb 2025'', income = 500, expenses = 220, net = 280\<rparr>,
        \<lparr>month = ''Jan 2025'', income = 0, expenses = 200, net = - 200\<rparr>]"
proof -
  have m: "foldl (monthly_step noon_15_march_2025) [] (tl ledger)
   = [(''2025-01'', \<lparr>acc_income = 0, acc_expenses = 200\<rparr>),
      (''2025-02'', \<lparr>acc_income = 500, acc_expenses = 220\<rparr>)]"
    by (simp add: ledger_def ledger_steps_utc)
  show ?thesis
    unfolding getMonthlyData_def ledger_last_90_days Let_def m
    by (simp add: ledger_labels_utc ledger_sums)
qed

section \<open>Category rollup\<close>

lemma category_step_upsert:
  "category_step m t =
     map_set (t_category t)
       ((\<lambda>t d. \<lparr>acc_amount = fl_add (acc_amount d) (t_amount t), acc_count = acc_count d + 1\<rparr>) t
          (case map_of m (t_category t) of
             None \<Rightarrow> \<lparr>acc_amount = 0, acc_count = 0\<rparr> | Some d \<Rightarrow> d))
       m"
  by (cases "map_of m (t_category t)")
     (simp_all add: category_step_def Let_def map_has_def map_get_def map_of_map_set map_set_twice)

lemma sum_map_set:
  fixes g :: "'v \<Rightarrow> 'a::comm_monoid_add"
  shows "sum_list (map (\<lambda>p. g (snd p)) (map_set k v m))
           + (case map_of m k of None \<Rightarrow> 0 | Some d \<Rightarrow> g d)
         = sum_list (map (\<lambda>p. g (snd p)) m) + g v"
  by (induction m) (auto simp: ac_simps)

lemma set_map_set: "set (map_set k v m) \<subseteq> insert (k, v) (set m)"
  by (induction m) (auto split: if_splits)

lemma category_step_count:
  "sum_list (map (\<lambda>p. acc_count (snd p)) (category_step m t))
      = sum_list (map (\<lambda>p. acc_count (snd p)) m) + 1"
proof -
  define d where "d = (case map_of m (t_category t) of
                        None \<Rightarrow> \<lparr>acc_amount = 0, acc_count = 0\<rparr> | Some d \<Rightarrow> d)"
  define v where "v = \<lparr>acc_amount = fl_add (acc_amount d) (t_amount t), acc_count = acc_count d + 1\<rparr>"
  have old: "(case map_of m (t_category t) of None \<Rightarrow> 0 | Some d \<Rightarrow> acc_count d) = acc_count d"
    by (simp add: d_def split: option.splits)
  have "sum_list (map (\<lambda>p. acc_count (snd p)) (map_set (t_category t) v m)) + acc_count d
      = sum_list (map (\<lambda>p. acc_count (snd p)) m) + acc_count v"
    using sum_map_set [of acc_count "t_category t" v m] unfolding old .
  then show ?thesis
    by (simp add: category_step_upsert d_def [symmetric] v_def)
qed

lemma category_fold_count:
  "sum_list (map (\<lambda>p. acc_count (snd p)) (foldl category_step m ts))
     = sum_list (map (\<lambda>p. acc_count (snd p)) m) + length ts"
proof (induction ts arbitrary: m)
  case Nil
  then show ?case by simp
next
  case (Cons t ts)
  show ?case
    by (simp add: Cons.IH category_step_count)
qed

lemma category_fold_positive:
  "\<forall>p \<in> set m. 1 \<le> acc_count (snd p) \<Longrightarrow>
   \<forall>p \<in> set (foldl category_step m ts). 1 \<le> acc_count (snd p)"
proof (induction ts arbitrary: m)
  case Nil
  then show ?case by simp
next
  case (Cons t ts)
  have "\<forall>p \<in> set (category_step m t). 1 \<le> acc_count (snd p)"
    using Cons.prems set_map_set [of "t_category t" _ m]
    unfolding category_step_upsert by fastforce
  then show ?case
    using Cons.IH [of "category_step m t"] by simp
qed

lemma sum_list_sort_key:
  fixes f :: "'a \<Rightarrow> 'b::comm_monoid_add"
  shows "sum_list (map f (sort_key g xs)) = sum_list (map f xs)"
proof -
  have "mset (map f (sort_key g xs)) = mset (map f xs)" by simp
  then show ?thesis by (metis sum_mset_sum_list)
qed

lemma sorted_descending:
  fixes g :: "'a \<Rightarrow> number"
  shows "sorted_wrt (\<lambda>a b. g a \<ge> g b) (sort_key (\<lambda>e. - g e) xs)"
proof -
  have "sorted (map (\<lambda>e. - g e) (sort_key (\<lambda>e. - g e) xs))" by (rule sorted_sort_key)
  then show ?thesis by (simp add: sorted_map)
qed

lemma category_acc_fold:
  "foldl (\<lambda>d t. \<lparr>acc_amount = fl_add (acc_amount d) (t_amount t), acc_count = acc_count d + 1\<rparr>) d ts
   = \<lparr>acc_amount = foldl (\<lambda>sum t. fl_add sum (t_amount t)) (acc_amount d) ts,
      acc_count = acc_count d + length ts\<rparr>"
  by (induction ts arbitrary: d) simp_all

lemma category_fold_lookup:
  "map_of (foldl category_step m ts) c =
     (if c \<in> t_category ` set ts
      then Some (foldl (\<lambda>d t. \<lparr>acc_amount = fl_add (acc_amount d) (t_amount t),
                                acc_count = acc_count d + 1\<rparr>)
                  (case map_of m c of None \<Rightarrow> \<lparr>acc_amount = 0, acc_count = 0\<rparr> | Some d \<Rightarrow> d)
                  (filter (\<lambda>t. t_category t = c) ts))
      else map_of m c)"
  by (rule fold_group_lookup [where step = category_step and key = t_category
        and init = "\<lparr>acc_amount = 0, acc_count = 0\<rparr>"
        and upd = "\<lambda>t d. \<lparr>acc_amount = fl_add (acc_amount d) (t_amount t),
                           acc_count = acc_count d + 1\<rparr>"])
    (rule category_step_upsert)

lemma small_expenses_last_90_days:
  "filterTransactionsByDateRange noon_15_march_2025 D90 small_expenses = small_expenses"
  by (simp add: filterTransactionsByDateRange_def noon_15_march_2025_def small_expenses_def
      txn_def iso_day_def read_nat_def)

lemma small_sums:
  "fl_add 0 (3602879701896397 / 36028797018963968) = 3602879701896397 / 36028797018963968"
  "fl_add (3602879701896397 / 36028797018963968) (2476979795053773 / 2251799813685248)
     = 1351079888211149 / 1125899906842624"
  "fl_add (3602879701896397 / 36028797018963968) (3602879701896397 / 36028797018963968)
     = 3602879701896397 / 18014398509481984"
  "fl_add (3602879701896397 / 18014398509481984) (2476979795053773 / 2251799813685248)
     = 5854679515581645 / 4503599627370496"
  "fl_add 0 (1351079888211149 / 1125899906842624) = 1351079888211149 / 1125899906842624"
  "fl_add (1351079888211149 / 1125899906842624) (3602879701896397 / 36028797018963968)
     = 2927339757790823 / 2251799813685248"
  by (simp_all add: fl_add_def round_double_eval)

lemma small_expenses_steps:
  "category_step [] (txn ''e1'' Expense ''utilities'' (3602879701896397 / 36028797018963968) ''2025-02-03'')
   = [(''utilities'', \<lparr>acc_amount = 3602879701896397 / 36028797018963968, acc_count = Suc 0\<rparr>)]"
  "category_step [(''utilities'', \<lparr>acc_amount = 3602879701896397 / 36028797018963968, acc_count = Suc 0\<rparr>)]
     (txn ''e2'' Expense ''cleaning'' (3602879701896397 / 36028797018963968) ''2025-02-04'')
   = [(''utilities'', \<lparr>acc_amount = 3602879701896397 / 36028797018963968, acc_count = Suc 0\<rparr>),
      (''cleaning'', \<lparr>acc_amount = 3602879701896397 / 36028797018963968, acc_count = Suc 0\<rparr>)]"
  "category_step
     [(''utilities'', \<lparr>acc_amount = 3602879701896397 / 36028797018963968, acc_count = Suc 0\<rparr>),
      (''cleaning'', \<lparr>acc_amount = 3602879701896397 / 36028797018963968, acc_count = Suc 0\<rparr>)]
     (txn ''e3'' Expense ''utilities'' (2476979795053773 / 2251799813685248) ''2025-02-05'')
   = [(''utilities'', \<lparr>acc_amount = 1351079888211149 / 1125899906842624, acc_count = 2\<rparr>),
      (''cleaning'', \<lparr>acc_amount = 3602879701896397 / 36028797018963968, acc_count = Suc 0\<rparr>)]"
  unfolding category_step_def
  by (simp_all add: map_has_def map_get_def txn_def small_sums)

lemma small_expenses_categories:
  "getCategoryData noon_15_march_2025 D90 small_expenses Expense
   = [\<lparr>category = ''utilities'', amount = 1351079888211149 / 1125899906842624, count = 2\<rparr>,
      \<lparr>category = ''cleaning'', amount = 3602879701896397 / 36028797018963968, count = 1\<rparr>]"
proof -
  have f: "filter (\<lambda>t. t_type t = Expense) small_expenses = small_expenses"
    by (simp add: small_expenses_def txn_def)
  have m: "foldl category_step [] small_expenses
   = [(''utilities'', \<lparr>acc_amount = 1351079888211149 / 1125899906842624, acc_count = 2\<rparr>),
      (''cleaning'', \<lparr>acc_amount = 3602879701896397 / 36028797018963968, acc_count = 1\<rparr>)]"
    by (simp add: small_expenses_def double_of_tenth double_of_eleven_tenths small_expenses_steps)
  show ?thesis
    unfolding getCategoryData_def small_expenses_last_90_days f Let_def m
    by (simp add: replace_underscores_def)
qed

text \<open>
  With the amounts 0.10, 0.10 and 1.10 in the categories utilities, cleaning and
  utilities, the entries' amounts do not add up to the total of the transactions:
  added as the code adds, the entries give 1.3000000000000003 and the transactions 1.3;
  added exactly, the two differ as well, since the amount of the utilities entry is
  itself a rounded sum.
\<close>

theorem category_amounts_do_not_add_up:
  "fl_sum amount (getCategoryData noon_15_march_2025 D90 small_expenses Expense)
     = 2927339757790823 / 2251799813685248
   \<and> fl_sum t_amount (filter (\<lambda>t. t_type t = Expense)
         (filterTransactionsByDateRange noon_15_march_2025 D90 small_expenses))
     = 5854679515581645 / 4503599627370496
   \<and> fl_sum amount (getCategoryData noon_15_march_2025 D90 small_expenses Expense)
     \<noteq> fl_sum t_amount (filter (\<lambda>t. t_type t = Expense)
         (filterTransactionsByDateRange noon_15_march_2025 D90 small_expenses))
   \<and> sum_list (map amount (getCategoryData noon_15_march_2025 D90 small_expenses Expense))
     \<noteq> sum_list (map t_amount (filter (\<lambda>t. t_type t = Expense)
         (filterTransactionsByDateRange noon_15_march_2025 D90 small_expenses)))"
proof -
  have f: "filter (\<lambda>t. t_type t = Expense) small_expenses = small_expenses"
    by (simp add: small_expenses_def txn_def)
  have a: "fl_sum amount (getCategoryData noon_15_march_2025 D90 small_expenses Expense)
     = 2927339757790823 / 2251799813685248"
    by (simp add: small_expenses_categories fl_sum_def small_sums)
  have b: "fl_sum t_amount small_expenses = 5854679515581645 / 4503599627370496"
    by (simp add: small_expenses_def fl_sum_def txn_def double_of_tenth double_of_eleven_tenths
        small_sums)
  have c: "sum_list (map amount (getCategoryData noon_15_march_2025 D90 small_expenses Expense))
     \<noteq> sum_list (map t_amount small_expenses)"
    unfolding small_expenses_categories
    by (simp add: small_expenses_def txn_def double_of_tenth double_of_eleven_tenths)
  from a b c show ?thesis
    by (simp add: small_expenses_last_90_days f)
qed

text \<open>
  Claim C6, amended. Let \<open>f\<close> be the transactions of the given type in the selected date
  range. The entries \<open>getCategoryData\<close> returns are in non-increasing order of amount,
  each has a count of at least 1, and their counts sum to the number of transactions in
  \<open>f\<close>. There is exactly one entry for each category of \<open>f\<close>; its count is the number of
  the category's transactions in \<open>f\<close> and its amount is the sum of their amounts, added in
  list order in double arithmetic. Each of these additions rounds, so the entries'
  amounts need not add up to the total amount of \<open>f\<close>.
\<close>

theorem getCategoryData_entries:
  "(let f = filter (\<lambda>t. t_type t = type) (filterTransactionsByDateRange env dateRange transactions);
        out = getCategoryData env dateRange transactions type
    in sorted_wrt (\<lambda>a b. amount a \<ge> amount b) out
     \<and> (\<forall>e \<in> set out. 1 \<le> count e)
     \<and> sum_list (map count out) = length f
     \<and> mset out =
         {# \<lparr>category = replace_underscores c,
             amount = fl_sum t_amount (filter (\<lambda>t. t_category t = c) f),
             count = length (filter (\<lambda>t. t_category t = c) f)\<rparr>.
            c \<in># mset_set (t_category ` set f) #})"
proof -
  define f where "f = filter (\<lambda>t. t_type t = type) (filterTransactionsByDateRange env dateRange transactions)"
  define m where "m = foldl category_step [] f"
  define entry :: "string \<times> CategoryAcc \<Rightarrow> CategoryData" where "entry = (\<lambda>(cat, data).
                   \<lparr>category = replace_underscores cat,
                    amount = acc_amount data,
                    count = acc_count data\<rparr>)"
  have out: "getCategoryData env dateRange transactions type = sort_key (\<lambda>e. - amount e) (map entry m)"
    by (simp add: getCategoryData_def Let_def f_def m_def entry_def)
  have s: "sorted_wrt (\<lambda>a b. amount a \<ge> amount b) (sort_key (\<lambda>e. - amount e) (map entry m))"
    by (rule sorted_descending)
  have c: "\<forall>e \<in> set (sort_key (\<lambda>e. - amount e) (map entry m)). 1 \<le> count e"
    using category_fold_positive [of "[]" f] by (auto simp: m_def entry_def)
  have n: "sum_list (map count (sort_key (\<lambda>e. - amount e) (map entry m))) = length f"
    using category_fold_count [of "[]" f]
    by (simp add: sum_list_sort_key m_def entry_def comp_def case_prod_unfold)
  have d: "distinct (map fst m)"
    unfolding m_def by (rule fold_group_distinct [OF category_step_upsert]) simp
  have k: "set (map fst m) = t_category ` set f"
    unfolding m_def fold_group_keys [OF category_step_upsert] by simp
  have v: "the (map_of m c) =
     \<lparr>acc_amount = fl_sum t_amount (filter (\<lambda>t. t_category t = c) f),
      acc_count = length (filter (\<lambda>t. t_category t = c) f)\<rparr>"
    if "c \<in> t_category ` set f" for c
    unfolding m_def category_fold_lookup category_acc_fold fl_sum_def
    using that by simp
  have "mset (sort_key (\<lambda>e. - amount e) (map entry m)) = image_mset entry (mset m)"
    by simp
  also have "mset m = {# (c, the (map_of m c)). c \<in># mset_set (t_category ` set f) #}"
    using mset_alist [OF d] unfolding k .
  finally have "mset (sort_key (\<lambda>e. - amount e) (map entry m))
      = {# entry (c, the (map_of m c)). c \<in># mset_set (t_category ` set f) #}"
    by (simp add: image_mset.compositionality comp_def)
  also have "\<dots> = {# entry (c,
       \<lparr>acc_amount = fl_sum t_amount (filter (\<lambda>t. t_category t = c) f),
        acc_count = length (filter (\<lambda>t. t_category t = c) f)\<rparr>).
       c \<in># mset_set (t_category ` set f) #}"
    by (rule image_mset_cong) (simp add: v)
  finally have ms: "mset (sort_key (\<lambda>e. - amount e) (map entry m)) =
         {# \<lparr>category = replace_underscores c,
             amount = fl_sum t_amount (filter (\<lambda>t. t_category t = c) f),
             count = length (filter (\<lambda>t. t_category t = c) f)\<rparr>.
            c \<in># mset_set (t_category ` set f) #}"
    by (simp add: entry_def)
  show ?thesis
    unfolding Let_def f_def [symmetric] out using s c n ms by simp
qed

theorem getCategoryData_entries_witness:
  "\<lparr>category = ''utilities'', amount = 1351079888211149 / 1125899906842624, count = 2\<rparr>
     \<in> set (getCategoryData noon_15_march_2025 D90 small_expenses Expense)
   \<and> 1 \<le> count \<lparr>category = ''utilities'', amount = 1351079888211149 / 1125899906842624, count = 2\<rparr>
   \<and> sum_list (map count (getCategoryData noon_15_march_2025 D90 small_expenses Expense)) = 3"
proof -
  have m: "\<lparr>category = ''utilities'', amount = 1351079888211149 / 1125899906842624, count = 2\<rparr>
     \<in> set (getCategoryData noon_15_march_2025 D90 small_expenses Expense)"
    by (simp add: small_expenses_categories)
  have l: "length (filter (\<lambda>t. t_type t = Expense) small_expenses) = 3"
    by (simp add: small_expenses_def txn_def)
  from getCategoryData_entries [of Expense noon_15_march_2025 D90 small_expenses] m l
  show ?thesis
    by (simp add: Let_def small_expenses_last_90_days)
qed

section \<open>Profile roles\<close>

lemma role_options_checked: "i < length role_options \<Longrightarrow> role_check (role_options ! i)"
proof -
  assume "i < length role_options"
  then have "i = 0 \<or> i = 1" by (auto simp: role_options_def)
  then show ?thesis by (auto simp: role_options_def role_check_def)
qed

lemma form_step_role:
  assumes "role_check (lf_role s)"
  shows "role_check (lf_role (form_step s e))"
proof (cases e)
  case (ChooseRole i)
  then show ?thesis
    using assms role_options_checked [of i] by simp
qed (use assms in \<open>auto split: form_mode.splits\<close>)

lemma form_run_role:
  "role_check (lf_role s) \<Longrightarrow> role_check (lf_role (foldl form_step s events))"
  by (induction events arbitrary: s) (simp_all add: form_step_role)

lemma insert_profile_roles:
  assumes "insert_profile profiles row = Inr profiles'"
    and "\<forall>p \<in> set profiles. role_check (pf_role p)"
  shows "\<forall>p \<in> set profiles'. role_check (pf_role p)"
  using assms by (auto simp: insert_profile_def split: if_splits)

lemma handle_new_user_roles:
  assumes "handle_new_user now profiles new = Inr profiles'"
    and "\<forall>p \<in> set profiles. role_check (pf_role p)"
  shows "\<forall>p \<in> set profiles'. role_check (pf_role p)"
  using assms
  by (auto simp: handle_new_user_def split: option.splits dest: insert_profile_roles)

lemma sign_ups_roles:
  "\<forall>p \<in> set profiles. role_check (pf_role p) \<Longrightarrow>
   \<forall>p \<in> set (sign_ups profiles news). role_check (pf_role p)"
proof (induction news arbitrary: profiles)
  case Nil
  then show ?case by simp
next
  case (Cons a news)
  obtain now new where a: "a = (now, new)" by (cases a)
  show ?case
  proof (cases "handle_new_user now profiles new")
    case (Inl e)
    then show ?thesis using Cons a by simp
  next
    case (Inr profiles')
    from Inr Cons.prems have "\<forall>p \<in> set profiles'. role_check (pf_role p)"
      by (rule handle_new_user_roles)
    then show ?thesis using Cons.IH Inr a by simp
  qed
qed

text \<open>
  Claim C7. Whatever the user does in the form, the role a registration submits to
  \<^verbatim>\<open>signUp\<close> is admin or resident. When the trigger creates the profile of a new auth
  user (no profile has the user's id yet), the profile's role is the role supplied in
  the user's metadata, or resident when none is supplied. A supplied role other than
  these two is rejected by the table's check, so after any sequence of sign-ups from
  the empty table every profile has the role admin or resident.
\<close>

theorem profile_role_invariant:
  "(lf_mode (foldl form_step initial_form events) = Register \<longrightarrow>
      (\<exists>email password fullName role.
         submit_call (foldl form_step initial_form events) = SignUp email password fullName role
         \<and> (role = ''admin'' \<or> role = ''resident'')))
   \<and> (handle_new_user now profiles new = Inr profiles' \<and> au_id new \<notin> set (map pf_id profiles) \<longrightarrow>
        (\<exists>row. profiles' = profiles @ [row] \<and> pf_id row = au_id new
           \<and> pf_role row = (case au_meta_role new of None \<Rightarrow> ''resident'' | Some r \<Rightarrow> r)))
   \<and> (\<forall>p \<in> set (sign_ups [] news). pf_role p = ''admin'' \<or> pf_role p = ''resident'')"
proof -
  have "role_check (lf_role (foldl form_step initial_form events))"
    by (rule form_run_role) (simp add: initial_form_def role_check_def)
  then have form: "\<exists>email password fullName role.
         submit_call (foldl form_step initial_form events) = SignUp email password fullName role
         \<and> (role = ''admin'' \<or> role = ''resident'')"
    if "lf_mode (foldl form_step initial_form events) = Register"
    using that by (simp add: submit_call_def role_check_def)
  have trigger: "\<exists>row. profiles' = profiles @ [row] \<and> pf_id row = au_id new
           \<and> pf_role row = (case au_meta_role new of None \<Rightarrow> ''resident'' | Some r \<Rightarrow> r)"
    if "handle_new_user now profiles new = Inr profiles'" "au_id new \<notin> set (map pf_id profiles)"
    using that
    by (auto simp: handle_new_user_def insert_profile_def coalesce_def
        split: option.splits if_splits)
  have "\<forall>p \<in> set (sign_ups [] news). role_check (pf_role p)"
    by (rule sign_ups_roles) simp
  then have table: "\<forall>p \<in> set (sign_ups [] news). pf_role p = ''admin'' \<or> pf_role p = ''resident''"
    by (simp add: role_check_def)
  from form trigger table show ?thesis by blast
qed

theorem profile_role_invariant_witness:
  "lf_mode (foldl form_step initial_form [ClickRegister, TypeEmail ''ann@hoa.com'', ChooseRole 1])
     = Register
   \<and> submit_call (foldl form_step initial_form
        [ClickRegister, TypeEmail ''ann@hoa.com'', ChooseRole 1])
     = SignUp ''ann@hoa.com'' [] [] ''admin''
   \<and> handle_new_user ''2025-03-15'' [] ann
     = Inr [\<lparr>pf_id = ''u1'', pf_email = ''ann@hoa.com'', pf_full_name = ''Ann'',
             pf_role = ''admin'', pf_phone = None, pf_created_at = ''2025-03-15'',
             pf_updated_at = ''2025-03-15''\<rparr>]
   \<and> map pf_role (sign_ups []
        [(''2025-03-15'', ann), (''2025-03-16'', mallory), (''2025-03-17'', bob)])
     = [''admin'', ''resident'']
   \<and> map pf_full_name (sign_ups []
        [(''2025-03-15'', ann), (''2025-03-16'', mallory), (''2025-03-17'', bob)])
     = [''Ann'', ''bob'']"
  using profile_role_invariant [where events = "[ClickRegister, TypeEmail ''ann@hoa.com'', ChooseRole 1]"
      and now = "''2025-03-15''" and profiles = "[]" and new = ann
      and news = "[(''2025-03-15'', ann), (''2025-03-16'', mallory), (''2025-03-17'', bob)]"]
  by (simp add: initial_form_def role_options_def submit_call_def handle_new_user_def
      insert_profile_def role_check_def coalesce_def split_part_at_1_def
      ann_def mallory_def bob_def)

end
